theory Spec2Isabelle
  imports Main
begin

section \<open>JavaScript numbers holding integers\<close>

text \<open>
  The configuration values (\<^verbatim>\<open>getEnvNumber\<close>: \<^verbatim>\<open>parseInt\<close>) and the box size are
  JavaScript numbers, that is IEEE-754 doubles that hold integers. The product of two of
  them is the exact product rounded to the nearest double (53 significant bits, ties to
  the even significand); a product beyond the largest double is \<^verbatim>\<open>Infinity\<close>, on which
  \<^verbatim>\<open>BigInt(...)\<close> throws a RangeError. Monetary amounts themselves are \<^verbatim>\<open>bigint\<close>,
  modelled as \<open>int\<close>.
\<close>

function bit_length :: "int \<Rightarrow> nat" where
  "bit_length n = (if n \<le> 0 then 0 else Suc (bit_length (n div 2)))"
  by pat_completeness auto
termination
  by (relation "measure nat") auto

declare bit_length.simps [simp del]

definition round_double :: "int \<Rightarrow> int option" where
  "round_double n =
     (let m = \<bar>n\<bar> in
      if m < 2 ^ 53 then Some n
      else
        let e = bit_length m - 53;
            q = m div 2 ^ e;
            r = m mod 2 ^ e;
            h = 2 ^ (e - 1);
            q' = (if h < r \<or> (r = h \<and> odd q) then q + 1 else q);
            v = q' * 2 ^ e
        in if 2 ^ 1024 \<le> v then None else Some (sgn n * v))"

text \<open>\<^verbatim>\<open>BigInt(a * b)\<close> for two numbers holding the integers \<open>a\<close> and \<open>b\<close>;
  \<open>None\<close> is the RangeError.\<close>

definition BigInt_times :: "int \<Rightarrow> int \<Rightarrow> int option" where
  "BigInt_times a b = round_double (a * b)"

section \<open>Data model (types.ts)\<close>

record Config =
  maxBoxesPerTx :: int
  rentFeePerByte :: int
  minBoxValuePerByte :: int
  minStorageRentAgeBlocks :: int
  transactionFee :: int
  dryRun :: bool

record Asset =
  tokenId :: string
  amount :: int

datatype BoxStatus = pending | queued | claimed | insufficient_funds | error

text \<open>\<^verbatim>\<open>EligibleBox\<close>; the field \<^verbatim>\<open>value\<close> is \<open>boxValue\<close> here, and the
  timestamps (\<^verbatim>\<open>discoveredAt\<close>, \<^verbatim>\<open>claimedAt\<close>) are left out.\<close>

record EligibleBox =
  boxId :: string
  creationHeight :: int
  currentHeight :: int
  boxSize :: int
  boxValue :: int
  rentFee :: int
  status :: BoxStatus
  ergoTree :: string
  assets :: "Asset list"
  additionalRegisters :: "(string \<times> string) list"

text \<open>The defaults of \<^verbatim>\<open>loadConfig\<close>.\<close>

definition defaultConfig :: Config where
  "defaultConfig =
     \<lparr>maxBoxesPerTx = 50, rentFeePerByte = 1250000, minBoxValuePerByte = 360,
      minStorageRentAgeBlocks = 1051200, transactionFee = 1000000, dryRun = False\<rparr>"

section \<open>Fee model\<close>

text \<open>\<^verbatim>\<open>TransactionService.calculateRentFee\<close>:
  \<^verbatim>\<open>BigInt(boxSize * this.config.rentFeePerByte)\<close>.\<close>

definition calculateRentFee :: "Config \<Rightarrow> int \<Rightarrow> int option" where
  "calculateRentFee config bsize = BigInt_times bsize (rentFeePerByte config)"

text \<open>The value check of \<^verbatim>\<open>scanForEligibleBoxes\<close>:
  \<^verbatim>\<open>boxValue >= rentFee + BigInt(this.config.minBoxValuePerByte * boxSize)\<close> with
  \<^verbatim>\<open>rentFee = BigInt(boxSize * this.config.rentFeePerByte)\<close>. The result is the rent fee
  and whether the box passes; \<open>None\<close> is a RangeError of either conversion.\<close>

definition valueCheck :: "Config \<Rightarrow> int \<Rightarrow> int \<Rightarrow> (int \<times> bool) option" where
  "valueCheck config bsize val =
     (case BigInt_times bsize (rentFeePerByte config) of
        None \<Rightarrow> None
      | Some fee \<Rightarrow>
          (case BigInt_times (minBoxValuePerByte config) bsize of
             None \<Rightarrow> None
           | Some minAcceptable \<Rightarrow> Some (fee, fee + minAcceptable \<le> val)))"

section \<open>The queue: a JavaScript Map from creation height to boxes\<close>

text \<open>
  \<^verbatim>\<open>Map<number, EligibleBox[]>\<close> iterates in insertion order, so it is an association
  list with one entry per key: \<^verbatim>\<open>set\<close> on a present key replaces the value in place, on
  an absent key appends the entry; \<^verbatim>\<open>delete\<close> removes the entry.
\<close>

type_synonym queue = "(int \<times> EligibleBox list) list"

definition Map_has :: "queue \<Rightarrow> int \<Rightarrow> bool" where
  "Map_has q h = (h \<in> set (map fst q))"

definition Map_get :: "queue \<Rightarrow> int \<Rightarrow> EligibleBox list option" where
  "Map_get q h = map_of q h"

fun Map_set :: "queue \<Rightarrow> int \<Rightarrow> EligibleBox list \<Rightarrow> queue" where
  "Map_set [] h bs = [(h, bs)]"
| "Map_set ((k, v) # q) h bs = (if k = h then (h, bs) # q else (k, v) # Map_set q h bs)"

definition Map_delete :: "int \<Rightarrow> queue \<Rightarrow> queue" where
  "Map_delete h q = filter (\<lambda>(k, v). k \<noteq> h) q"

section \<open>Promotion of height buckets (runScanAndProcess, eligibility part)\<close>

text \<open>
  The loop over \<^verbatim>\<open>this.queuedBoxesByHeight\<close> that fills \<^verbatim>\<open>nowEligible\<close> and
  \<^verbatim>\<open>heightsToRemove\<close>:
  \<^verbatim>\<open>isEligible = currentHeight > height + minAge\<close>.
\<close>

fun collectEligible ::
  "int \<Rightarrow> int \<Rightarrow> queue \<Rightarrow> EligibleBox list \<times> int list \<Rightarrow> EligibleBox list \<times> int list" where
  "collectEligible cur minAge [] acc = acc"
| "collectEligible cur minAge ((height, boxes) # q) (nowEligible, heightsToRemove) =
     (let eligibleAtHeight = height + minAge;
          isEligible = cur > eligibleAtHeight
      in if isEligible
         then collectEligible cur minAge q (nowEligible @ boxes, heightsToRemove @ [height])
         else collectEligible cur minAge q (nowEligible, heightsToRemove))"

text \<open>The promotion step: the claimable boxes, the removed heights and the queue after
  the \<^verbatim>\<open>delete\<close> loop.\<close>

definition promote :: "int \<Rightarrow> int \<Rightarrow> queue \<Rightarrow> EligibleBox list \<times> int list \<times> queue" where
  "promote cur minAge q =
     (let (nowEligible, heightsToRemove) = collectEligible cur minAge q ([], [])
      in (nowEligible, heightsToRemove, fold Map_delete heightsToRemove q))"

section \<open>Thrown errors\<close>

text \<open>
  Every \<^verbatim>\<open>throw\<close> the modelled code can reach is a value of \<open>exn\<close>; a function that
  can throw returns \<open>exn + 'a\<close>, with \<open>Inl\<close> the thrown error. \<open>NotEnoughRentCollected\<close>
  is the error the specification calls \<^verbatim>\<open>InsufficientRent\<close>
  (\<^verbatim>\<open>Not enough rent collected to pay transaction fee\<close>). \<open>InvalidAddress\<close>,
  \<open>InvalidErgoTree\<close>, \<open>OutputValueNotPositive\<close>, \<open>OutputRejected\<close> and
  \<open>BuildRejected\<close> are the errors the Fleet SDK throws; \<open>CannotSerializeBigInt\<close> is the
  TypeError of \<^verbatim>\<open>JSON.stringify\<close> on a \<^verbatim>\<open>bigint\<close>.
\<close>

datatype TxStatus = tx_pending | tx_confirmed | tx_failed

datatype dbCall =
    InsertEligibleBox string
  | UpdateBoxStatus string BoxStatus
  | InsertTransaction string
  | UpdateTransactionStatus string TxStatus

datatype exn =
    FailedToGetCurrentHeight
  | FailedToGetBox string
  | FailedToCreateInput string
  | InsufficientFeeAvailable int int
  | NotEnoughRentCollected int int
  | InvalidAddress string
  | InvalidErgoTree string
  | OutputValueNotPositive int
  | OutputRejected
  | BuildRejected
  | CannotSerializeBigInt
  | TransactionValidationFailed
  | FailedToSignAndSubmit
  | FailedToCheckTransaction string
  | DatabaseError dbCall

section \<open>Batch construction (transactionService.ts)\<close>

text \<open>The box data the node returns for a box id.\<close>

record BoxData =
  nodeBoxId :: string
  nodeCreationHeight :: int
  nodeValue :: int
  spentTransactionId :: "string option"
  nodeErgoTree :: string
  nodeAssets :: "Asset list"
  nodeRegisters :: "(string \<times> string) list"

text \<open>
  The Fleet SDK objects are data here: an address is how it was made, an input is the node's
  box with its context extension (variable 127 holds the output index \<open>i\<close>, serialised as
  \<^verbatim>\<open>03\<close> and two hex digits), an output is what \<^verbatim>\<open>OutputBuilder\<close> was given, and the
  unsigned transaction is what \<^verbatim>\<open>TransactionBuilder\<close> was given: the creation height, the
  inputs of \<^verbatim>\<open>from\<close>, the outputs of \<^verbatim>\<open>to\<close>, the change address and the fee of
  \<^verbatim>\<open>payFee\<close>. What the builder makes of this request (the order of the inputs, the fee
  output it adds) is the SDK's.
\<close>

datatype ErgoAddress = fromBase58 string | fromErgoTree string

record ErgoUnsignedInput =
  inputBox :: BoxData
  contextExtension127 :: nat

record OutputBuilder =
  outValue :: int
  recipient :: ErgoAddress
  tokens :: "Asset list"
  registers :: "(string \<times> string) list"

record UnsignedTx =
  txCreationHeight :: int
  txInputs :: "ErgoUnsignedInput list"
  txOutputs :: "OutputBuilder list"
  txChangeAddress :: ErgoAddress
  txFee :: int

record BuildResult =
  unsignedTx :: UnsignedTx
  inputBoxes :: "ErgoUnsignedInput list"
  totalRentCollected :: int

text \<open>
  Every call into the Fleet SDK can throw. \<^verbatim>\<open>new OutputBuilder\<close> throws on a value of 0
  or below (\<^verbatim>\<open>An UTxO cannot be created without a minimum required amount\<close>); what else
  the SDK accepts is a parameter:
  \<^item> \<open>addressAccepted\<close>: \<^verbatim>\<open>ErgoAddress.fromBase58\<close> returns;
  \<^item> \<open>ergoTreeAccepted\<close>: \<^verbatim>\<open>ErgoAddress.fromErgoTree\<close> returns;
  \<^item> \<open>inputAccepted\<close>: \<^verbatim>\<open>new ErgoUnsignedInput\<close> and \<^verbatim>\<open>setContextExtension\<close> return;
  \<^item> \<open>outputAccepted\<close>: \<^verbatim>\<open>new OutputBuilder\<close> accepts the recipient, and
    \<^verbatim>\<open>addTokens\<close> and \<^verbatim>\<open>setAdditionalRegisters\<close> return;
  \<^item> \<open>builderAccepted\<close>: the chain from \<^verbatim>\<open>new TransactionBuilder\<close> to
    \<^verbatim>\<open>toEIP12Object\<close> returns.
\<close>

record FleetSdk =
  addressAccepted :: "string \<Rightarrow> bool"
  ergoTreeAccepted :: "string \<Rightarrow> bool"
  inputAccepted :: "BoxData \<Rightarrow> bool"
  outputAccepted :: "OutputBuilder \<Rightarrow> bool"
  builderAccepted :: "UnsignedTx \<Rightarrow> bool"

text \<open>\<^verbatim>\<open>createTransactionBatches\<close>: slices of \<^verbatim>\<open>maxBoxesPerTx\<close> boxes. With a batch size
  below 1 and a box to place, the source's loop never ends, which is \<open>None\<close>.\<close>

function batchesFrom :: "nat \<Rightarrow> EligibleBox list \<Rightarrow> EligibleBox list list" where
  "batchesFrom n boxes =
     (if n = 0 \<or> boxes = [] then [] else take n boxes # batchesFrom n (drop n boxes))"
  by pat_completeness auto
termination
  by (relation "measure (\<lambda>(n, boxes). length boxes)") auto

declare batchesFrom.simps [simp del]

definition createTransactionBatches :: "Config \<Rightarrow> EligibleBox list \<Rightarrow> EligibleBox list list option" where
  "createTransactionBatches config boxes =
     (if boxes = [] then Some []
      else if maxBoxesPerTx config < 1 then None
      else Some (batchesFrom (nat (maxBoxesPerTx config)) boxes))"

text \<open>The loop that creates one Fleet input per box, in order, from the node's data for
  the box id. A box the node does not return (\<^verbatim>\<open>null\<close>), a failing request and an
  error of the SDK all end in \<^verbatim>\<open>Failed to create Fleet SDK input\<close>.\<close>

fun createInputs ::
  "FleetSdk \<Rightarrow> (string \<Rightarrow> exn + BoxData option) \<Rightarrow> EligibleBox list \<Rightarrow> nat
     \<Rightarrow> exn + ErgoUnsignedInput list" where
  "createInputs sdk getBox [] i = Inr []"
| "createInputs sdk getBox (box # boxes) i =
     (case getBox (boxId box) of
        Inl e \<Rightarrow> Inl (FailedToCreateInput (boxId box))
      | Inr None \<Rightarrow> Inl (FailedToCreateInput (boxId box))
      | Inr (Some nodeBoxData) \<Rightarrow>
          if \<not> inputAccepted sdk nodeBoxData then Inl (FailedToCreateInput (boxId box))
          else
            (case createInputs sdk getBox boxes (Suc i) of
               Inl e \<Rightarrow> Inl e
             | Inr fleetInputs \<Rightarrow>
                 Inr (\<lparr>inputBox = nodeBoxData, contextExtension127 = i\<rparr> # fleetInputs)))"

text \<open>\<^verbatim>\<open>new OutputBuilder(value, recipient).addTokens(...).setAdditionalRegisters(...)\<close>:
  the output, unless the value is 0 or below or the SDK refuses the tokens or registers.\<close>

definition newOutputBuilder :: "FleetSdk \<Rightarrow> OutputBuilder \<Rightarrow> exn + OutputBuilder" where
  "newOutputBuilder sdk out =
     (if outValue out \<le> 0 then Inl (OutputValueNotPositive (outValue out))
      else if \<not> outputAccepted sdk out then Inl OutputRejected
      else Inr out)"

text \<open>The output that recreates a box: its script, tokens and registers, with the rent
  deducted from the value.\<close>

definition recreatedOutput :: "EligibleBox \<Rightarrow> OutputBuilder" where
  "recreatedOutput box =
     \<lparr>outValue = boxValue box - rentFee box, recipient = fromErgoTree (ergoTree box),
      tokens = assets box, registers = additionalRegisters box\<rparr>"

text \<open>\<^verbatim>\<open>boxes.map(box => ...)\<close>: for each box in order the address of its script and
  then its output; the first error of the SDK is thrown.\<close>

fun createOutputs :: "FleetSdk \<Rightarrow> EligibleBox list \<Rightarrow> exn + OutputBuilder list" where
  "createOutputs sdk [] = Inr []"
| "createOutputs sdk (box # boxes) =
     (if \<not> ergoTreeAccepted sdk (ergoTree box) then Inl (InvalidErgoTree (ergoTree box))
      else case newOutputBuilder sdk (recreatedOutput box) of
             Inl e \<Rightarrow> Inl e
           | Inr out \<Rightarrow>
               (case createOutputs sdk boxes of
                  Inl e \<Rightarrow> Inl e
                | Inr outs \<Rightarrow> Inr (out # outs)))"

text \<open>\<^verbatim>\<open>buildStorageRentTransaction\<close>; \<open>fee\<close> is the Fleet SDK's constant
  \<^verbatim>\<open>RECOMMENDED_MIN_FEE_VALUE\<close>.\<close>

definition buildStorageRentTransaction ::
  "FleetSdk \<Rightarrow> int \<Rightarrow> (string \<Rightarrow> exn + BoxData option) \<Rightarrow> EligibleBox list \<Rightarrow> string \<Rightarrow> int
     \<Rightarrow> exn + BuildResult" where
  "buildStorageRentTransaction sdk fee getBox boxes changeAddress height =
     (let totalRent = fold (\<lambda>box total. total + rentFee box) boxes 0 in
      case createInputs sdk getBox boxes 0 of
        Inl e \<Rightarrow> Inl e
      | Inr fleetInputs \<Rightarrow>
          if \<not> addressAccepted sdk changeAddress then Inl (InvalidAddress changeAddress)
          else
            let changeAddr = fromBase58 changeAddress in
            case createOutputs sdk boxes of
              Inl e \<Rightarrow> Inl e
            | Inr outputs \<Rightarrow>
                let totalInputValue = fold (\<lambda>box total. total + boxValue box) boxes 0;
                    rentAfterFee = totalRent - fee;
                    totalOutputValue =
                      fold (\<lambda>box total. total + (boxValue box - rentFee box)) boxes 0
                        + rentAfterFee;
                    transactionFee = fee;
                    availableForFee = totalInputValue - totalOutputValue
                in if availableForFee < transactionFee
                   then Inl (InsufficientFeeAvailable availableForFee transactionFee)
                   else if rentAfterFee \<le> 0
                   then Inl (NotEnoughRentCollected totalRent transactionFee)
                   else
                     (case newOutputBuilder sdk
                             \<lparr>outValue = rentAfterFee, recipient = changeAddr, tokens = [],
                              registers = []\<rparr> of
                        Inl e \<Rightarrow> Inl e
                      | Inr rentCollectionOutput \<Rightarrow>
                          let request =
                                \<lparr>txCreationHeight = height, txInputs = fleetInputs,
                                 txOutputs = outputs @ [rentCollectionOutput],
                                 txChangeAddress = changeAddr, txFee = fee\<rparr>
                          in if \<not> builderAccepted sdk request then Inl BuildRejected
                             else Inr \<lparr>unsignedTx = request, inputBoxes = fleetInputs,
                                       totalRentCollected = totalRent\<rparr>))"

section \<open>Collaborators\<close>

text \<open>
  The node, the signing library and the database are outside the modelled code; what they
  answer is a parameter \<open>env\<close>. \<open>None\<close> (or \<open>False\<close>) is a failed request or a thrown
  library error.
  \<^item> \<open>fleetSdk\<close>: what the Fleet SDK accepts, and \<open>RECOMMENDED_MIN_FEE_VALUE\<close>: its
    constant;
  \<^item> \<open>infoFullHeight k\<close>: the height \<^verbatim>\<open>GET /info\<close> reports (\<^verbatim>\<open>fullHeight || 0\<close>) at the
    request of the cycle (\<open>k = 0\<close>) or of batch \<open>k\<close>;
  \<^item> \<open>boxRange offset\<close>: the box ids of \<^verbatim>\<open>GET /blockchain/box/range\<close> with limit 1000;
  \<^item> \<open>blockchainBoxById\<close>: \<^verbatim>\<open>GET /blockchain/box/byId\<close>;
  \<^item> \<open>utxoById\<close>: \<^verbatim>\<open>GET /utxo/byId\<close>, with 404 apart;
  \<^item> \<open>estimateBoxSize\<close>: the Fleet SDK's size estimate;
  \<^item> \<open>from_json\<close>, \<open>sign_transaction\<close>, \<open>postTransaction\<close>, \<open>parseSignedJson\<close>: the
    steps of signing and broadcasting;
  \<^item> \<open>transactionConfirmed txId k\<close>: the answer to the \<open>k\<close>-th confirmation poll
    (status 200 with \<^verbatim>\<open>numConfirmations > 0\<close>; a 404 is \<open>Some False\<close>);
  \<^item> \<open>dbAccepts t call\<close>: whether the database accepts the call made at step \<open>t\<close> (the
    batch index within a cycle, the attempt within a monitor); a rejected call rejects the
    promise.
\<close>

datatype SignedTx = SignedTx UnsignedTx "string list"

datatype utxoReply = Unspent BoxData | NotFound404 | RequestFailed

record Env =
  fleetSdk :: FleetSdk
  RECOMMENDED_MIN_FEE_VALUE :: int
  walletAddress :: string
  infoFullHeight :: "nat \<Rightarrow> int option"
  boxRange :: "int \<Rightarrow> string list option"
  blockchainBoxById :: "string \<Rightarrow> BoxData option"
  utxoById :: "string \<Rightarrow> utxoReply"
  estimateBoxSize :: "BoxData \<Rightarrow> int option"
  from_json :: "UnsignedTx \<Rightarrow> bool"
  sign_transaction :: "UnsignedTx \<Rightarrow> SignedTx option"
  postTransaction :: "SignedTx \<Rightarrow> string option"
  parseSignedJson :: "SignedTx \<Rightarrow> bool"
  transactionConfirmed :: "string \<Rightarrow> nat \<Rightarrow> bool option"
  dbAccepts :: "nat \<Rightarrow> dbCall \<Rightarrow> bool"

text \<open>\<^verbatim>\<open>ErgoNodeService.getCurrentHeight\<close>, \<^verbatim>\<open>getBoxById\<close> (404 is \<^verbatim>\<open>null\<close>) and
  \<^verbatim>\<open>isTransactionConfirmed\<close>.\<close>

definition getCurrentHeight :: "Env \<Rightarrow> nat \<Rightarrow> exn + int" where
  "getCurrentHeight env k =
     (case infoFullHeight env k of None \<Rightarrow> Inl FailedToGetCurrentHeight | Some h \<Rightarrow> Inr h)"

definition getBoxById :: "Env \<Rightarrow> string \<Rightarrow> exn + BoxData option" where
  "getBoxById env i =
     (case utxoById env i of
        Unspent d \<Rightarrow> Inr (Some d)
      | NotFound404 \<Rightarrow> Inr None
      | RequestFailed \<Rightarrow> Inl (FailedToGetBox i))"


section \<open>Database (database/index.ts)\<close>

text \<open>
  The tables \<^verbatim>\<open>eligible_boxes\<close> and \<^verbatim>\<open>transactions\<close>, keyed by box id and transaction
  id. \<^verbatim>\<open>INSERT OR REPLACE\<close> writes the row; \<^verbatim>\<open>UPDATE ... WHERE\<close> changes the row when
  there is one. \<^verbatim>\<open>insertEligibleBox\<close> serialises the assets with \<^verbatim>\<open>JSON.stringify\<close>,
  which throws on their \<^verbatim>\<open>bigint\<close> amounts, so the insert of a box that holds tokens
  is rejected. The \<^verbatim>\<open>bot_state\<close> table is not modelled: \<^verbatim>\<open>updateWalletBalance\<close> and
  \<^verbatim>\<open>updateMetrics\<close> only write there and to the log, and catch every error.
\<close>

record BoxRow =
  rowBox :: EligibleBox
  rowBoxStatus :: BoxStatus
  rowTxId :: "string option"

record TransactionRow =
  rowBoxIds :: "string list"
  rowRentCollected :: int
  rowFee :: int
  rowStatus :: TxStatus

record Database =
  eligible_boxes :: "string \<Rightarrow> BoxRow option"
  transactions :: "string \<Rightarrow> TransactionRow option"

definition emptyDatabase :: Database where
  "emptyDatabase = \<lparr>eligible_boxes = (\<lambda>i. None), transactions = (\<lambda>i. None)\<rparr>"

definition insertEligibleBox :: "Env \<Rightarrow> nat \<Rightarrow> Database \<Rightarrow> EligibleBox \<Rightarrow> exn + Database" where
  "insertEligibleBox env t db box =
     (if assets box \<noteq> [] then Inl CannotSerializeBigInt
      else if dbAccepts env t (InsertEligibleBox (boxId box))
      then Inr (db\<lparr>eligible_boxes := (eligible_boxes db)
                  (boxId box \<mapsto> \<lparr>rowBox = box, rowBoxStatus = status box, rowTxId = None\<rparr>)\<rparr>)
      else Inl (DatabaseError (InsertEligibleBox (boxId box))))"

definition updateBoxStatus ::
  "Env \<Rightarrow> nat \<Rightarrow> Database \<Rightarrow> string \<Rightarrow> BoxStatus \<Rightarrow> string option \<Rightarrow> exn + Database" where
  "updateBoxStatus env t db i st txId =
     (if dbAccepts env t (UpdateBoxStatus i st)
      then Inr (case eligible_boxes db i of
                  None \<Rightarrow> db
                | Some row \<Rightarrow>
                    db\<lparr>eligible_boxes := (eligible_boxes db)
                         (i \<mapsto> row\<lparr>rowBoxStatus := st, rowTxId := txId\<rparr>)\<rparr>)
      else Inl (DatabaseError (UpdateBoxStatus i st)))"

definition insertTransaction ::
  "Env \<Rightarrow> nat \<Rightarrow> Database \<Rightarrow> string \<Rightarrow> TransactionRow \<Rightarrow> exn + Database" where
  "insertTransaction env t db txId row =
     (if dbAccepts env t (InsertTransaction txId)
      then Inr (db\<lparr>transactions := (transactions db)(txId \<mapsto> row)\<rparr>)
      else Inl (DatabaseError (InsertTransaction txId)))"


section \<open>Signing and submitting (fromUnsigned)\<close>

text \<open>The body of the \<^verbatim>\<open>try\<close> block: parse the unsigned transaction and its inputs,
  sign, post to the node, parse the signed transaction. \<open>None\<close> is an exception of any of
  these steps.\<close>

definition fromUnsignedTry :: "Env \<Rightarrow> UnsignedTx \<Rightarrow> (string \<times> SignedTx) option" where
  "fromUnsignedTry env unsignedTxJson =
     (if \<not> from_json env unsignedTxJson then None
      else case sign_transaction env unsignedTxJson of
             None \<Rightarrow> None
           | Some signedTx \<Rightarrow>
               (case postTransaction env signedTx of
                  None \<Rightarrow> None
                | Some txId \<Rightarrow>
                    if parseSignedJson env signedTx then Some (txId, signedTx) else None))"

text \<open>\<^verbatim>\<open>fromUnsigned\<close>: the \<^verbatim>\<open>catch\<close> logs the error and returns \<^verbatim>\<open>[null, null]\<close>.\<close>

definition fromUnsigned :: "Env \<Rightarrow> UnsignedTx \<Rightarrow> string option \<times> SignedTx option" where
  "fromUnsigned env unsignedTxJson =
     (case fromUnsignedTry env unsignedTxJson of
        Some (txId, signedTx) \<Rightarrow> (Some txId, Some signedTx)
      | None \<Rightarrow> (None, None))"

section \<open>Confirmation monitor (monitorTransactionConfirmation)\<close>







section \<open>Eligibility scan (ergoNode.ts, scanForEligibleBoxes)\<close>

text \<open>\<^verbatim>\<open>calculateBoxSize\<close>: the Fleet estimate, or 49 when the estimate throws.\<close>

definition calculateBoxSize :: "Env \<Rightarrow> BoxData \<Rightarrow> int" where
  "calculateBoxSize env box =
     (case estimateBoxSize env box of Some fleetSize \<Rightarrow> fleetSize | None \<Rightarrow> 49)"

text \<open>\<^verbatim>\<open>if (box.spentTransactionId)\<close>: a non-empty string.\<close>

definition isSpent :: "BoxData \<Rightarrow> bool" where
  "isSpent box = (case spentTransactionId box of None \<Rightarrow> False | Some t \<Rightarrow> t \<noteq> [])"

text \<open>
  The \<^verbatim>\<open>try\<close> block for one box id, up to the decision: \<open>None\<close> when the request fails
  or a conversion throws (caught and logged), when the box is spent, when it becomes
  eligible more than 1000 blocks ahead, or when its value is insufficient; otherwise the
  \<^verbatim>\<open>EligibleBox\<close> that is put into its height bucket.
\<close>

definition candidateBox :: "Env \<Rightarrow> Config \<Rightarrow> int \<Rightarrow> int \<Rightarrow> string \<Rightarrow> EligibleBox option" where
  "candidateBox env config cur minAge i =
     (case blockchainBoxById env i of
        None \<Rightarrow> None
      | Some box \<Rightarrow>
          if isSpent box then None
          else
            let eligibleAtHeight = nodeCreationHeight box + minAge;
                blocksUntilEligible = eligibleAtHeight - cur
            in if blocksUntilEligible > 1000 then None
               else
                 let bsize = calculateBoxSize env box
                 in case valueCheck config bsize (nodeValue box) of
                      None \<Rightarrow> None
                    | Some (fee, sufficient) \<Rightarrow>
                        if sufficient
                        then Some \<lparr>boxId = nodeBoxId box,
                                   creationHeight = nodeCreationHeight box,
                                   currentHeight = cur, boxSize = bsize,
                                   boxValue = nodeValue box, rentFee = fee,
                                   status = (if blocksUntilEligible \<le> 0 then pending else queued),
                                   ergoTree = nodeErgoTree box, assets = nodeAssets box,
                                   additionalRegisters = nodeRegisters box\<rparr>
                        else None)"

text \<open>\<^verbatim>\<open>if (!m.has(height)) m.set(height, []); m.get(height)!.push(...boxes)\<close>, as the
  scan does for one box and the queue merge for a scanned bucket.\<close>

definition Map_push :: "queue \<Rightarrow> int \<Rightarrow> EligibleBox list \<Rightarrow> queue" where
  "Map_push m height boxes =
     (let m1 = (if \<not> Map_has m height then Map_set m height [] else m)
      in case Map_get m1 height of
           Some present \<Rightarrow> Map_set m1 height (present @ boxes)
         | None \<Rightarrow> m1)"

text \<open>\<^verbatim>\<open>Array.prototype.indexOf\<close>: the first index, or -1.\<close>

fun indexOf :: "string list \<Rightarrow> string \<Rightarrow> int" where
  "indexOf [] x = - 1"
| "indexOf (y # ys) x =
     (if y = x then 0 else (let i = indexOf ys x in if i < 0 then - 1 else i + 1))"

definition batchSize :: int where
  "batchSize = 1000"

record ScanResult =
  boxesByHeight :: queue
  nextOffset :: int

datatype scanStep = Returned ScanResult | Checked queue int

text \<open>The loop over the box ids of one page; \<open>boxIds\<close> is the whole (reversed) page, for
  \<^verbatim>\<open>indexOf\<close>. The scan returns from inside the loop once the target count is reached.\<close>

fun scanBoxIds ::
  "Env \<Rightarrow> Config \<Rightarrow> int \<Rightarrow> int \<Rightarrow> int \<Rightarrow> int \<Rightarrow> string list \<Rightarrow> string list \<Rightarrow> queue \<Rightarrow> int
     \<Rightarrow> scanStep" where
  "scanBoxIds env config cur minAge target offset boxIds [] m found = Checked m found"
| "scanBoxIds env config cur minAge target offset boxIds (i # rest) m found =
     (case candidateBox env config cur minAge i of
        None \<Rightarrow> scanBoxIds env config cur minAge target offset boxIds rest m found
      | Some eligibleBox \<Rightarrow>
          let m' = Map_push m (creationHeight eligibleBox) [eligibleBox];
              found' = found + 1
          in if found' \<ge> target
             then Returned \<lparr>boxesByHeight = m',
                             nextOffset = offset - (batchSize - indexOf boxIds i)\<rparr>
             else scanBoxIds env config cur minAge target offset boxIds rest m' found')"

text \<open>
  The \<^verbatim>\<open>while (totalBoxesFound < targetBoxCount)\<close> loop over the pages. Nothing bounds
  the number of pages (a node that fails every page request keeps the loop running), so
  the loop has fuel, and \<open>None\<close> is a scan that has not returned within it. A failed page
  request is caught inside the loop: the offset moves down by the page size and the loop
  goes on.
\<close>

fun scanPages ::
  "nat \<Rightarrow> Env \<Rightarrow> Config \<Rightarrow> int \<Rightarrow> int \<Rightarrow> int \<Rightarrow> int \<Rightarrow> int \<Rightarrow> queue \<Rightarrow> int
     \<Rightarrow> ScanResult option" where
  "scanPages 0 env config cur minAge target offset next m found =
     (if found < target then None else Some \<lparr>boxesByHeight = m, nextOffset = next\<rparr>)"
| "scanPages (Suc fuel) env config cur minAge target offset next m found =
     (if found < target
      then (case boxRange env offset of
              None \<Rightarrow>
                scanPages fuel env config cur minAge target
                  (offset - batchSize) (offset - batchSize) m found
            | Some page \<Rightarrow>
                let boxIds = rev page
                in if boxIds = [] then Some \<lparr>boxesByHeight = m, nextOffset = next\<rparr>
                   else (case scanBoxIds env config cur minAge target offset boxIds boxIds m found of
                           Returned r \<Rightarrow> Some r
                         | Checked m' found' \<Rightarrow>
                             scanPages fuel env config cur minAge target
                               (offset - batchSize) (offset - batchSize) m' found'))
      else Some \<lparr>boxesByHeight = m, nextOffset = next\<rparr>)"

definition scanForEligibleBoxes ::
  "nat \<Rightarrow> Env \<Rightarrow> Config \<Rightarrow> int \<Rightarrow> int \<Rightarrow> int \<Rightarrow> int \<Rightarrow> ScanResult option" where
  "scanForEligibleBoxes fuel env config cur minAge startOffset targetBoxCount =
     (let offset = (if startOffset = 0 then 44160000 else startOffset)
      in scanPages fuel env config cur minAge targetBoxCount offset startOffset [] 0)"

section \<open>Orchestrator (storageRentBot.ts)\<close>

datatype errorMessage = BatchFailed nat exn

text \<open>\<^verbatim>\<open>ProcessingResult\<close>; \<open>rentCollected\<close> is its field \<^verbatim>\<open>totalRentCollected\<close>, and an
  entry of \<open>errors\<close> is the message \<^verbatim>\<open>Batch n failed: error\<close>.\<close>

record ProcessingResult =
  processedBoxes :: nat
  successfulTransactions :: nat
  failedTransactions :: nat
  rentCollected :: int
  totalFeesPaid :: int
  errors :: "errorMessage list"

definition emptyResult :: ProcessingResult where
  "emptyResult =
     \<lparr>processedBoxes = 0, successfulTransactions = 0, failedTransactions = 0,
      rentCollected = 0, totalFeesPaid = 0, errors = []\<rparr>"

record BotState =
  lastQueueScanHeight :: int
  queuedBoxesByHeight :: queue
  lastSearchOffset :: int

definition initialState :: BotState where
  "initialState = \<lparr>lastQueueScanHeight = 0, queuedBoxesByHeight = [], lastSearchOffset = 0\<rparr>"

text \<open>\<^verbatim>\<open>ErgoNodeService.validateBoxes\<close>: every id is returned as valid.\<close>

record Validation =
  valid :: "string list"
  invalid :: "string list"

definition validateBoxes :: "string list \<Rightarrow> Validation" where
  "validateBoxes boxIds = \<lparr>valid = boxIds, invalid = []\<rparr>"

text \<open>\<^verbatim>\<open>validateTransaction\<close>: the unsigned transaction is an object, so only the empty
  batch is refused.\<close>

definition validateTransaction :: "EligibleBox list \<Rightarrow> UnsignedTx \<Rightarrow> bool" where
  "validateTransaction boxes tx = (boxes \<noteq> [])"

text \<open>The loop that marks the boxes of a submitted batch \<^verbatim>\<open>claimed\<close>; a rejected update
  throws, with the earlier updates done.\<close>

fun markClaimed ::
  "Env \<Rightarrow> nat \<Rightarrow> Database \<Rightarrow> EligibleBox list \<Rightarrow> string \<Rightarrow> (exn \<times> Database) + Database" where
  "markClaimed env t db [] txId = Inr db"
| "markClaimed env t db (box # boxes) txId =
     (case updateBoxStatus env t db (boxId box) claimed (Some txId) of
        Inl e \<Rightarrow> Inl (e, db)
      | Inr db' \<Rightarrow> markClaimed env t db' boxes txId)"

text \<open>
  The \<^verbatim>\<open>try\<close> block of \<^verbatim>\<open>processBatch\<close>: the height, the build, the validation, and
  then either the dry run or signing, submitting and recording. A thrown error comes with
  the database as it was left. The confirmation monitor that is started at the end runs
  detached from the cycle and is modelled on its own.
\<close>

definition processBatchTry ::
  "Env \<Rightarrow> Config \<Rightarrow> Database \<Rightarrow> EligibleBox list \<Rightarrow> nat
     \<Rightarrow> (exn \<times> Database) + (ProcessingResult \<times> Database)" where
  "processBatchTry env config db boxes batchIndex =
     (case getCurrentHeight env batchIndex of
        Inl e \<Rightarrow> Inl (e, db)
      | Inr height \<Rightarrow>
          (case buildStorageRentTransaction (fleetSdk env) (RECOMMENDED_MIN_FEE_VALUE env)
                  (getBoxById env) boxes (walletAddress env) height of
             Inl e \<Rightarrow> Inl (e, db)
           | Inr built \<Rightarrow>
               if \<not> validateTransaction boxes (unsignedTx built)
               then Inl (TransactionValidationFailed, db)
               else
                 let fee = transactionFee config;
                     okResult = \<lparr>processedBoxes = length boxes, successfulTransactions = 1,
                             failedTransactions = 0,
                             rentCollected = totalRentCollected built,
                             totalFeesPaid = fee, errors = []\<rparr>
                 in if dryRun config then Inr (okResult, db)
                    else
                      (case fst (fromUnsigned env (unsignedTx built)) of
                         None \<Rightarrow> Inl (FailedToSignAndSubmit, db)
                       | Some txId \<Rightarrow>
                           if txId = [] then Inl (FailedToSignAndSubmit, db)
                           else
                             (case insertTransaction env batchIndex db txId
                                     \<lparr>rowBoxIds = map boxId boxes,
                                      rowRentCollected = totalRentCollected built,
                                      rowFee = fee, rowStatus = tx_pending\<rparr> of
                                Inl e \<Rightarrow> Inl (e, db)
                              | Inr db1 \<Rightarrow>
                                  (case markClaimed env batchIndex db1 boxes txId of
                                     Inl (e, db2) \<Rightarrow> Inl (e, db2)
                                   | Inr db2 \<Rightarrow> Inr (okResult, db2))))))"

text \<open>\<^verbatim>\<open>processBatch\<close>: the \<^verbatim>\<open>catch\<close> turns every error of the block into a result with
  one failed transaction and the message; it throws nothing itself.\<close>

definition processBatch ::
  "Env \<Rightarrow> Config \<Rightarrow> Database \<Rightarrow> EligibleBox list \<Rightarrow> nat \<Rightarrow> ProcessingResult \<times> Database" where
  "processBatch env config db boxes batchIndex =
     (case processBatchTry env config db boxes batchIndex of
        Inl (e, db') \<Rightarrow>
          (emptyResult\<lparr>failedTransactions := 1, errors := [BatchFailed batchIndex e]\<rparr>, db')
      | Inr returned \<Rightarrow> returned)"

text \<open>Saving the eligible boxes: a rejected insert is caught and logged.\<close>

fun saveEligible :: "Env \<Rightarrow> Database \<Rightarrow> EligibleBox list \<Rightarrow> Database" where
  "saveEligible env db [] = db"
| "saveEligible env db (box # boxes) =
     (case insertEligibleBox env 0 db box of
        Inl e \<Rightarrow> saveEligible env db boxes
      | Inr db' \<Rightarrow> saveEligible env db' boxes)"

text \<open>Marking the invalid boxes \<^verbatim>\<open>error\<close>: a rejected update is not caught here.\<close>

fun markInvalid :: "Env \<Rightarrow> Database \<Rightarrow> string list \<Rightarrow> (exn \<times> Database) + Database" where
  "markInvalid env db [] = Inr db"
| "markInvalid env db (i # ids) =
     (case updateBoxStatus env 0 db i error None of
        Inl e \<Rightarrow> Inl (e, db)
      | Inr db' \<Rightarrow> markInvalid env db' ids)"

definition addResult :: "ProcessingResult \<Rightarrow> ProcessingResult \<Rightarrow> ProcessingResult" where
  "addResult result batchResult =
     \<lparr>processedBoxes = processedBoxes result + processedBoxes batchResult,
      successfulTransactions = successfulTransactions result + successfulTransactions batchResult,
      failedTransactions = failedTransactions result + failedTransactions batchResult,
      rentCollected = rentCollected result + rentCollected batchResult,
      totalFeesPaid = totalFeesPaid result + totalFeesPaid batchResult,
      errors = errors result @ errors batchResult\<rparr>"

text \<open>The loop over the batches, from the 0-based index \<open>i\<close>; an empty batch is skipped.
  Since \<^verbatim>\<open>processBatch\<close> throws nothing, the handler around its call has nothing to
  catch. The delay between batches is not modelled.\<close>

fun processBatches ::
  "Env \<Rightarrow> Config \<Rightarrow> Database \<Rightarrow> EligibleBox list list \<Rightarrow> nat \<Rightarrow> ProcessingResult
     \<Rightarrow> ProcessingResult \<times> Database" where
  "processBatches env config db [] i result = (result, db)"
| "processBatches env config db (batch # batches) i result =
     (if batch = [] then processBatches env config db batches (Suc i) result
      else
        let (batchResult, db') = processBatch env config db batch (Suc i)
        in processBatches env config db' batches (Suc i) (addResult result batchResult))"

text \<open>
  The errors thrown inside the \<^verbatim>\<open>try\<close> blocks of \<^verbatim>\<open>processBatch\<close> over the loop:
  for every batch that is not skipped, with its number, the error that its \<^verbatim>\<open>try\<close>
  block throws, if it throws; the database goes from batch to batch as the block leaves
  it. This is what a cycle has to record.
\<close>

fun thrownInBatches ::
  "Env \<Rightarrow> Config \<Rightarrow> Database \<Rightarrow> EligibleBox list list \<Rightarrow> nat \<Rightarrow> (nat \<times> exn) list" where
  "thrownInBatches env config db [] i = []"
| "thrownInBatches env config db (batch # batches) i =
     (if batch = [] then thrownInBatches env config db batches (Suc i)
      else
        (case processBatchTry env config db batch (Suc i) of
           Inl (e, db') \<Rightarrow> (Suc i, e) # thrownInBatches env config db' batches (Suc i)
         | Inr (returned, db') \<Rightarrow> thrownInBatches env config db' batches (Suc i)))"

text \<open>\<^verbatim>\<open>processEligibleBoxes\<close>. \<open>None\<close> is the batching loop that does not end (a batch
  size below 1).\<close>

definition processEligibleBoxes ::
  "Env \<Rightarrow> Config \<Rightarrow> Database \<Rightarrow> EligibleBox list
     \<Rightarrow> ((exn \<times> Database) + (ProcessingResult \<times> Database)) option" where
  "processEligibleBoxes env config db eligibleBoxes =
     (if eligibleBoxes = [] then Some (Inr (emptyResult, db))
      else
        let db1 = saveEligible env db eligibleBoxes;
            boxIds = map boxId eligibleBoxes;
            validation = validateBoxes boxIds
        in case markInvalid env db1 (invalid validation) of
             Inl (e, db2) \<Rightarrow> Some (Inl (e, db2))
           | Inr db2 \<Rightarrow>
               let validBoxes = filter (\<lambda>box. boxId box \<in> set (valid validation)) eligibleBoxes
               in if validBoxes = [] then Some (Inr (emptyResult, db2))
                  else (case createTransactionBatches config validBoxes of
                          None \<Rightarrow> None
                        | Some batches \<Rightarrow>
                            Some (Inr (processBatches env config db2 batches 0 emptyResult))))"

text \<open>Merging the scanned buckets into the queue.\<close>

definition mergeScan :: "queue \<Rightarrow> queue \<Rightarrow> queue" where
  "mergeScan scanned q = fold (\<lambda>(height, boxes) m. Map_push m height boxes) scanned q"

text \<open>
  \<^verbatim>\<open>runScanAndProcess\<close>: one cycle on the bot's state and the database. \<open>None\<close> is a
  cycle that does not return (the scan or the batching never ends); \<open>Inl\<close> is the error the
  cycle rethrows from its \<^verbatim>\<open>catch\<close>, with the state as it was left.
\<close>

definition runScanAndProcess ::
  "nat \<Rightarrow> Env \<Rightarrow> Config \<Rightarrow> BotState \<Rightarrow> Database
     \<Rightarrow> ((exn \<times> BotState \<times> Database) + (ProcessingResult \<times> BotState \<times> Database)) option" where
  "runScanAndProcess fuel env config st db =
     (case getCurrentHeight env 0 of
        Inl e \<Rightarrow> Some (Inl (e, st, db))
      | Inr cur \<Rightarrow>
          let shouldScanQueue = (cur - lastQueueScanHeight st \<ge> 50);
              scanned =
                (if shouldScanQueue
                 then (case scanForEligibleBoxes fuel env config cur
                              (minStorageRentAgeBlocks config) (lastSearchOffset st) 50 of
                         None \<Rightarrow> None
                       | Some r \<Rightarrow>
                           Some (st\<lparr>queuedBoxesByHeight :=
                                      mergeScan (boxesByHeight r) (queuedBoxesByHeight st),
                                    lastQueueScanHeight := cur,
                                    lastSearchOffset := nextOffset r\<rparr>))
                 else Some st)
          in case scanned of
               None \<Rightarrow> None
             | Some st1 \<Rightarrow>
                 let minAge = minStorageRentAgeBlocks config;
                     (nowEligible, heightsToRemove, q') =
                        promote cur minAge (queuedBoxesByHeight st1);
                     st2 = st1\<lparr>queuedBoxesByHeight := q'\<rparr>
                 in if nowEligible = [] then Some (Inr (emptyResult, st2, db))
                    else (case processEligibleBoxes env config db nowEligible of
                            None \<Rightarrow> None
                          | Some (Inl (e, db')) \<Rightarrow> Some (Inl (e, st2, db'))
                          | Some (Inr (result, db')) \<Rightarrow> Some (Inr (result, st2, db'))))"

section \<open>The queue invariant\<close>

text \<open>
  Every queued box lies in the bucket of its own creation height, which is the creation
  height the node reports for its box id, and the queue has one bucket per height.
  \<open>answersAskedBox\<close> says that the node answers a request for a box id with the data of
  that box. A state is reachable when cycles lead to it from the initial state, against
  collaborators that may change from cycle to cycle but share the node's boxes.
\<close>

definition bucketedByNodeHeight :: "(string \<Rightarrow> BoxData option) \<Rightarrow> queue \<Rightarrow> bool" where
  "bucketedByNodeHeight node q =
     list_all (\<lambda>(h, bs). list_all (\<lambda>b. creationHeight b = h \<and>
                  map_option nodeCreationHeight (node (boxId b)) = Some h) bs) q"

definition queueInv :: "(string \<Rightarrow> BoxData option) \<Rightarrow> queue \<Rightarrow> bool" where
  "queueInv node q = (distinct (map fst q) \<and> bucketedByNodeHeight node q)"

inductive reachable :: "(string \<Rightarrow> BoxData option) \<Rightarrow> Config \<Rightarrow> BotState \<Rightarrow> bool"
  for node :: "string \<Rightarrow> BoxData option" and config :: Config where
  initial: "reachable node config initialState"
| returned: "reachable node config st \<Longrightarrow> blockchainBoxById env = node \<Longrightarrow>
     runScanAndProcess fuel env config st db = Some (Inr (result, st', db')) \<Longrightarrow>
     reachable node config st'"
| thrown: "reachable node config st \<Longrightarrow> blockchainBoxById env = node \<Longrightarrow>
     runScanAndProcess fuel env config st db = Some (Inl (e, st', db')) \<Longrightarrow>
     reachable node config st'"

definition answersAskedBox :: "(string \<Rightarrow> BoxData option) \<Rightarrow> bool" where
  "answersAskedBox node = (\<forall>i d. node i = Some d \<longrightarrow> nodeBoxId d = i)"

section \<open>Example data\<close>

text \<open>An SDK that accepts everything but an output value of 0 or below, and a collaborator
  that answers every request and accepts every write: the fee constant of
  \<^verbatim>\<open>@fleet-sdk/core\<close> 0.6.4, a node without boxes at height \<open>h\<close>, a signer that signs
  with no proofs, and transactions that confirm at once.\<close>

definition acceptingSdk :: FleetSdk where
  "acceptingSdk =
     \<lparr>addressAccepted = (\<lambda>a. True), ergoTreeAccepted = (\<lambda>t. True),
      inputAccepted = (\<lambda>d. True), outputAccepted = (\<lambda>out. True),
      builderAccepted = (\<lambda>tx. True)\<rparr>"

definition quietEnv :: "int \<Rightarrow> Env" where
  "quietEnv h =
     \<lparr>fleetSdk = acceptingSdk,
      RECOMMENDED_MIN_FEE_VALUE = 1100000, walletAddress = ''9hWallet'',
      infoFullHeight = (\<lambda>k. Some h), boxRange = (\<lambda>offset. Some []),
      blockchainBoxById = (\<lambda>i. None), utxoById = (\<lambda>i. NotFound404),
      estimateBoxSize = (\<lambda>d. Some 105), from_json = (\<lambda>tx. True),
      sign_transaction = (\<lambda>tx. Some (SignedTx tx [])),
      postTransaction = (\<lambda>s. Some ''txid1''), parseSignedJson = (\<lambda>s. True),
      transactionConfirmed = (\<lambda>txId k. Some True), dbAccepts = (\<lambda>t call. True)\<rparr>"

text \<open>A box with the given id, creation height, value and rent fee, the node's data for
  a box, and a node that holds exactly the given unspent boxes.\<close>

definition exampleBox :: "string \<Rightarrow> int \<Rightarrow> int \<Rightarrow> int \<Rightarrow> EligibleBox" where
  "exampleBox i h v f =
     \<lparr>boxId = i, creationHeight = h, currentHeight = 0, boxSize = 105, boxValue = v,
      rentFee = f, status = queued, ergoTree = ''0008cd'', assets = [],
      additionalRegisters = []\<rparr>"

definition nodeDataOf :: "EligibleBox \<Rightarrow> BoxData" where
  "nodeDataOf b =
     \<lparr>nodeBoxId = boxId b, nodeCreationHeight = creationHeight b, nodeValue = boxValue b,
      spentTransactionId = None, nodeErgoTree = ergoTree b, nodeAssets = assets b,
      nodeRegisters = additionalRegisters b\<rparr>"

definition nodeHolding :: "EligibleBox list \<Rightarrow> string \<Rightarrow> exn + BoxData option" where
  "nodeHolding bs i = Inr (map_option nodeDataOf (find (\<lambda>b. boxId b = i) bs))"

text \<open>Scenario C: two boxes with the rent fees 100,000,000 and 50,000,000, and the same
  two boxes with the rent fee 400,000 each.\<close>

definition scenarioC :: "EligibleBox list" where
  "scenarioC =
     [exampleBox ''a1'' 1000 500000000 100000000, exampleBox ''b2'' 1000 300000000 50000000]"

definition scenarioC_low :: "EligibleBox list" where
  "scenarioC_low =
     [exampleBox ''a1'' 1000 500000000 400000, exampleBox ''b2'' 1000 300000000 400000]"

definition exampleTx :: UnsignedTx where
  "exampleTx =
     \<lparr>txCreationHeight = 2000, txInputs = [], txOutputs = [],
      txChangeAddress = fromBase58 ''9hWallet'', txFee = 1000000\<rparr>"



text \<open>A node whose page request at offset 5000 fails, whose page at offset 4000 holds the
  ids \<open>a1\<close> and \<open>zz\<close>, and which returns the unspent box \<open>a1\<close> (creation height 1000,
  value 500,000,000) and fails on every other box id; and the box \<open>a1\<close> as the scan at
  height 2000 records it.\<close>

definition flakyEnv :: Env where
  "flakyEnv = (quietEnv 2000)
     \<lparr>boxRange := (\<lambda>offset. if offset = 5000 then None
                              else if offset = 4000 then Some [''a1'', ''zz''] else Some []),
      blockchainBoxById := (\<lambda>i. if i = ''a1''
                                  then Some (nodeDataOf (exampleBox ''a1'' 1000 500000000 0))
                                  else None)\<rparr>"

definition scannedA1 :: EligibleBox where
  "scannedA1 = (exampleBox ''a1'' 1000 500000000 131250000)\<lparr>currentHeight := 2000, status := pending\<rparr>"

text \<open>Two claimable boxes of creation height 1000, a node on which \<open>a1\<close> has been spent
  (\<^verbatim>\<open>/utxo/byId\<close> answers 404) while \<open>b2\<close> is unspent, and a bot state that holds both
  boxes in the bucket of height 1000.\<close>

definition boxA1 :: EligibleBox where
  "boxA1 = (exampleBox ''a1'' 1000 500000000 131250000)\<lparr>status := pending\<rparr>"

definition boxB2 :: EligibleBox where
  "boxB2 = (exampleBox ''b2'' 1000 300000000 131250000)\<lparr>status := pending\<rparr>"

definition spentA1Env :: Env where
  "spentA1Env = (quietEnv 1060000)
     \<lparr>utxoById := (\<lambda>i. if i = ''b2'' then Unspent (nodeDataOf boxB2) else NotFound404)\<rparr>"

definition queuedState :: BotState where
  "queuedState =
     \<lparr>lastQueueScanHeight = 1060000, queuedBoxesByHeight = [(1000, [boxA1, boxB2])],
      lastSearchOffset = 44159000\<rparr>"

text \<open>A node with the single unspent box \<open>a1\<close> on the first page the scan reads, 900
  blocks before it becomes claimable, and the state after one cycle on it.\<close>

definition oneBoxEnv :: Env where
  "oneBoxEnv = (quietEnv 1051300)
     \<lparr>boxRange := (\<lambda>offset. if offset = 44160000 then Some [''a1''] else Some []),
      blockchainBoxById := (\<lambda>i. if i = ''a1''
                                  then Some (nodeDataOf (exampleBox ''a1'' 1000 500000000 0))
                                  else None)\<rparr>"

definition queuedA1 :: EligibleBox where
  "queuedA1 = (exampleBox ''a1'' 1000 500000000 131250000)\<lparr>currentHeight := 1051300\<rparr>"

definition oneBoxState :: BotState where
  "oneBoxState =
     \<lparr>lastQueueScanHeight = 1051300, queuedBoxesByHeight = [(1000, [queuedA1])],
      lastSearchOffset = 44159000\<rparr>"

text \<open>A ledger of the 1002 boxes \<open>box0\<close>, ..., \<open>box1001\<close>, served in pages of 1000 from the
  requested offset; \<open>box1000\<close> is unspent (creation height 1000, value 500,000,000), every
  other box has been spent.\<close>

fun decimal :: "nat \<Rightarrow> string" where
  "decimal n =
     (if n < 10 then [''0123456789'' ! n]
      else decimal (n div 10) @ [''0123456789'' ! (n mod 10)])"

declare decimal.simps [simp del]

definition ledgerId :: "nat \<Rightarrow> string" where
  "ledgerId k = ''box'' @ decimal k"

definition ledgerEnv :: Env where
  "ledgerEnv = (quietEnv 2000)
     \<lparr>boxRange := (\<lambda>offset. if 0 \<le> offset
                              then Some (map ledgerId [nat offset ..< min 1002 (nat offset + 1000)])
                              else None),
      blockchainBoxById := (\<lambda>i. if i = ledgerId 1000
                                  then Some (nodeDataOf (exampleBox i 1000 500000000 0))
                                  else Some ((nodeDataOf (exampleBox i 1000 500000000 0))
                                               \<lparr>spentTransactionId := Some ''t1''\<rparr>))\<rparr>"

definition scannedLedgerBox :: EligibleBox where
  "scannedLedgerBox =
     (exampleBox ''box1000'' 1000 500000000 131250000)\<lparr>currentHeight := 2000, status := pending\<rparr>"

section \<open>Properties of the fee model\<close>

lemma round_double_small: "\<bar>n\<bar> < 2 ^ 53 \<Longrightarrow> round_double n = Some n"
  by (simp add: round_double_def Let_def)

lemma BigInt_times_exact: "\<bar>a * b\<bar> < 2 ^ 53 \<Longrightarrow> BigInt_times a b = Some (a * b)"
  unfolding BigInt_times_def by (rule round_double_small)

text \<open>
  C7 (amended). While the products \<open>encodedSize * feePerByte\<close> and
  \<open>minValuePerByte * encodedSize\<close> stay below \<open>2^53\<close> in magnitude, the number
  multiplication is exact: the rent fee is \<open>encodedSize * feePerByte\<close>, the minimum
  acceptable value is \<open>encodedSize * minValuePerByte\<close>, and the scan accepts the box by
  value exactly when \<open>boxValue \<ge> rentFee + minAcceptableValue\<close>.
\<close>

theorem rent_fee_exact_in_safe_range:
  assumes "\<bar>bsize * rentFeePerByte config\<bar> < 2 ^ 53"
    and "\<bar>minBoxValuePerByte config * bsize\<bar> < 2 ^ 53"
  shows "calculateRentFee config bsize = Some (bsize * rentFeePerByte config) \<and>
         BigInt_times (minBoxValuePerByte config) bsize = Some (bsize * minBoxValuePerByte config) \<and>
         valueCheck config bsize val =
           Some (bsize * rentFeePerByte config,
                 bsize * rentFeePerByte config + bsize * minBoxValuePerByte config \<le> val)"
  using assms
  by (simp add: calculateRentFee_def valueCheck_def BigInt_times_exact mult.commute)

text \<open>Scenario B: size 105, fee per byte 1,250,000, minimum value per byte 360 and value
  500,000,000 give the rent fee 131,250,000, the minimum acceptable value 37,800, and the
  box passes the value check.\<close>

theorem rent_fee_exact_in_safe_range_witness:
  "calculateRentFee defaultConfig 105 = Some 131250000 \<and>
   BigInt_times (minBoxValuePerByte defaultConfig) 105 = Some 37800 \<and>
   valueCheck defaultConfig 105 500000000 = Some (131250000, True)"
  using rent_fee_exact_in_safe_range [of 105 defaultConfig 500000000]
  by (simp add: defaultConfig_def)

text \<open>The claim as stated, for every size and fee per byte, fails: with size 105 and the
  fee per byte 85,782,850,045,153 (a value \<^verbatim>\<open>RENT_FEE_PER_BYTE\<close> can hold) the exact product
  9,007,199,254,741,065 is not a double, and the code computes 9,007,199,254,741,064.\<close>

theorem rent_fee_rounds_counterexample:
  "calculateRentFee (defaultConfig\<lparr>rentFeePerByte := 85782850045153\<rparr>) 105
     = Some 9007199254741064 \<and>
   105 * rentFeePerByte (defaultConfig\<lparr>rentFeePerByte := 85782850045153\<rparr>)
     = 9007199254741065"
  by code_simp

section \<open>Properties of the promotion\<close>

lemma collectEligible_filter:
  "collectEligible cur minAge q (ne, hr) =
     (ne @ concat (map snd (filter (\<lambda>(h, bs). h + minAge < cur) q)),
      hr @ map fst (filter (\<lambda>(h, bs). h + minAge < cur) q))"
  by (induction q arbitrary: ne hr) (auto simp: Let_def)

lemma fold_Map_delete:
  "fold Map_delete hs q = filter (\<lambda>(k, v). k \<notin> set hs) q"
proof (induction hs arbitrary: q)
  case Nil
  then show ?case by simp
next
  case (Cons h hs)
  have "filter (\<lambda>(k, v). k \<notin> set hs) (Map_delete h q) = filter (\<lambda>(k, v). k \<notin> set (h # hs)) q"
    by (induction q) (auto simp: Map_delete_def)
  with Cons show ?case by simp
qed

lemma promote_filter:
  "promote cur minAge q =
     (concat (map snd (filter (\<lambda>(h, bs). h + minAge < cur) q)),
      map fst (filter (\<lambda>(h, bs). h + minAge < cur) q),
      filter (\<lambda>(h, bs). \<not> h + minAge < cur) q)"
proof -
  have "filter (\<lambda>(k, v). k \<notin> set (map fst (filter (\<lambda>(h, bs). h + minAge < cur) q))) q
      = filter (\<lambda>(h, bs). \<not> h + minAge < cur) q"
    by (rule filter_cong) (auto simp: image_iff)
  then show ?thesis
    by (simp add: promote_def collectEligible_filter fold_Map_delete)
qed

text \<open>
  C3. For every queue and every current height, the promotion moves exactly the buckets
  with \<open>height + minAgeBlocks < currentHeight\<close>: the claimable output is the
  concatenation of the box lists of these buckets in queue order, these heights are the
  ones deleted, and the queue keeps exactly the other buckets, untouched. A bucket of
  height 1000 with \<open>minAgeBlocks = 500\<close> stays queued at height 1500 and is promoted
  whole at height 1501.
\<close>

theorem promote_strict_threshold:
  "promote cur minAge q =
     (concat (map snd (filter (\<lambda>(h, bs). h + minAge < cur) q)),
      map fst (filter (\<lambda>(h, bs). h + minAge < cur) q),
      filter (\<lambda>(h, bs). \<not> h + minAge < cur) q) \<and>
   promote 1500 500 [(1000, bs)] = ([], [], [(1000, bs)]) \<and>
   promote 1501 500 [(1000, bs)] = (bs, [1000], [])"
proof -
  have "promote 1500 500 [(1000, bs)] = ([], [], [(1000, bs)])"
    by (simp add: promote_def)
  moreover have "promote 1501 500 [(1000, bs)] = (bs, [1000], [])"
    by (simp add: promote_def Map_delete_def)
  ultimately show ?thesis using promote_filter [of cur minAge q] by simp
qed

section \<open>Properties of the batch construction\<close>

lemma fold_plus: "fold (\<lambda>x t. t + f x) xs (a::int) = a + sum_list (map f xs)"
  by (induction xs arbitrary: a) auto

lemma createInputs_map:
  "createInputs sdk getBox boxes i = Inr ins \<Longrightarrow>
     map (\<lambda>x. Inr (Some (inputBox x))) ins = map (\<lambda>b. getBox (boxId b)) boxes \<and>
     map contextExtension127 ins = [i ..< i + length boxes]"
proof (induction boxes arbitrary: i ins)
  case Nil
  then show ?case by simp
next
  case (Cons b boxes)
  from Cons.prems obtain d rest where d: "getBox (boxId b) = Inr (Some d)"
    and rest: "createInputs sdk getBox boxes (Suc i) = Inr rest"
    and ins: "ins = \<lparr>inputBox = d, contextExtension127 = i\<rparr> # rest"
    by (auto split: sum.splits option.splits if_splits)
  from Cons.IH [OF rest]
  have m: "map (\<lambda>x. Inr (Some (inputBox x))) rest = map (\<lambda>b. getBox (boxId b)) boxes"
    and c: "map contextExtension127 rest = [Suc i ..< Suc i + length boxes]"
    by blast+
  have u: "[i ..< i + length (b # boxes)] = i # [Suc i ..< Suc i + length boxes]"
  proof -
    have "[i ..< Suc (i + length boxes)] = i # [Suc i ..< Suc (i + length boxes)]"
      by (rule upt_conv_Cons) simp
    then show ?thesis
      by (simp only: length_Cons add_Suc_right add_Suc)
  qed
  show ?case
    unfolding u ins using m c d by simp
qed

lemma createInputs_no_rent_error:
  "createInputs sdk getBox boxes i \<noteq> Inl (NotEnoughRentCollected a b)"
  by (induction boxes arbitrary: i) (auto split: sum.splits option.splits)

lemma createOutputs_no_rent_error:
  "createOutputs sdk boxes \<noteq> Inl (NotEnoughRentCollected a b)"
  by (induction boxes) (auto simp: newOutputBuilder_def split: sum.splits)

lemma createOutputs_Inr:
  "createOutputs sdk boxes = Inr outs \<Longrightarrow>
     outs = map recreatedOutput boxes \<and> list_all (\<lambda>out. 0 < outValue out) outs"
proof (induction boxes arbitrary: outs)
  case Nil
  then show ?case by simp
next
  case (Cons b boxes)
  from Cons.prems obtain rest where rest: "createOutputs sdk boxes = Inr rest"
    and outs: "outs = recreatedOutput b # rest"
    and pos: "0 < outValue (recreatedOutput b)"
    by (auto simp: newOutputBuilder_def split: sum.splits if_splits)
  from Cons.IH [OF rest] have r1: "rest = map recreatedOutput boxes"
    and r2: "list_all (\<lambda>out. 0 < outValue out) rest"
    by blast+
  from r2 pos show ?case
    unfolding outs by (simp add: r1 [symmetric])
qed

text \<open>The available fee always equals the fee, so the first check never throws.\<close>

lemma build_cases:
  "buildStorageRentTransaction sdk fee getBox boxes addr h =
     (case createInputs sdk getBox boxes 0 of
        Inl e \<Rightarrow> Inl e
      | Inr ins \<Rightarrow>
          if \<not> addressAccepted sdk addr then Inl (InvalidAddress addr)
          else case createOutputs sdk boxes of
            Inl e \<Rightarrow> Inl e
          | Inr outs \<Rightarrow>
              if sum_list (map rentFee boxes) \<le> fee
              then Inl (NotEnoughRentCollected (sum_list (map rentFee boxes)) fee)
              else if \<not> outputAccepted sdk
                        \<lparr>outValue = sum_list (map rentFee boxes) - fee,
                          recipient = fromBase58 addr, tokens = [], registers = []\<rparr>
              then Inl OutputRejected
              else if \<not> builderAccepted sdk
                        \<lparr>txCreationHeight = h, txInputs = ins,
                          txOutputs = outs @
                            [\<lparr>outValue = sum_list (map rentFee boxes) - fee,
                              recipient = fromBase58 addr, tokens = [], registers = []\<rparr>],
                          txChangeAddress = fromBase58 addr, txFee = fee\<rparr>
              then Inl BuildRejected
              else Inr \<lparr>unsignedTx =
                     \<lparr>txCreationHeight = h, txInputs = ins,
                      txOutputs = outs @
                        [\<lparr>outValue = sum_list (map rentFee boxes) - fee,
                          recipient = fromBase58 addr, tokens = [], registers = []\<rparr>],
                      txChangeAddress = fromBase58 addr, txFee = fee\<rparr>,
                   inputBoxes = ins, totalRentCollected = sum_list (map rentFee boxes)\<rparr>)"
  by (simp add: buildStorageRentTransaction_def Let_def fold_plus sum_list_subtractf
        newOutputBuilder_def split: sum.splits)

lemma sum_recreated:
  "sum_list (map (outValue \<circ> recreatedOutput) boxes)
     = sum_list (map boxValue boxes) - sum_list (map rentFee boxes)"
  by (induction boxes) (auto simp: recreatedOutput_def)

lemma build_Inr:
  assumes "buildStorageRentTransaction sdk fee getBox boxes addr h = Inr r"
  shows "\<exists>ins. createInputs sdk getBox boxes 0 = Inr ins \<and>
           createOutputs sdk boxes = Inr (map recreatedOutput boxes) \<and>
           list_all (\<lambda>out. 0 < outValue out) (map recreatedOutput boxes) \<and>
           fee < sum_list (map rentFee boxes) \<and>
           r = \<lparr>unsignedTx =
                 \<lparr>txCreationHeight = h, txInputs = ins,
                  txOutputs = map recreatedOutput boxes @
                    [\<lparr>outValue = sum_list (map rentFee boxes) - fee, recipient = fromBase58 addr,
                      tokens = [], registers = []\<rparr>],
                  txChangeAddress = fromBase58 addr, txFee = fee\<rparr>,
               inputBoxes = ins, totalRentCollected = sum_list (map rentFee boxes)\<rparr>"
proof -
  from assms obtain ins where ins: "createInputs sdk getBox boxes 0 = Inr ins"
    by (cases "createInputs sdk getBox boxes 0") (auto simp: build_cases)
  from assms ins obtain outs where outs: "createOutputs sdk boxes = Inr outs"
    by (cases "createOutputs sdk boxes") (auto simp: build_cases split: if_splits)
  note o = createOutputs_Inr [OF outs]
  from assms ins outs o show ?thesis
    by (auto simp: build_cases split: if_splits)
qed

lemma createInputs_scenarioC:
  "createInputs acceptingSdk (nodeHolding scenarioC) scenarioC 0 = Inr
     [\<lparr>inputBox = nodeDataOf (exampleBox ''a1'' 1000 500000000 100000000),
        contextExtension127 = 0\<rparr>,
      \<lparr>inputBox = nodeDataOf (exampleBox ''b2'' 1000 300000000 50000000),
        contextExtension127 = 1\<rparr>]"
  by (simp add: scenarioC_def exampleBox_def nodeHolding_def acceptingSdk_def)

lemma createInputs_scenarioC_low:
  "createInputs acceptingSdk (nodeHolding scenarioC_low) scenarioC_low 0 = Inr
     [\<lparr>inputBox = nodeDataOf (exampleBox ''a1'' 1000 500000000 400000),
        contextExtension127 = 0\<rparr>,
      \<lparr>inputBox = nodeDataOf (exampleBox ''b2'' 1000 300000000 400000),
        contextExtension127 = 1\<rparr>]"
  by (simp add: scenarioC_low_def exampleBox_def nodeHolding_def acceptingSdk_def)

lemma createOutputs_scenarioC:
  "createOutputs acceptingSdk scenarioC = Inr (map recreatedOutput scenarioC)"
  by (simp add: scenarioC_def exampleBox_def acceptingSdk_def newOutputBuilder_def
      recreatedOutput_def)

lemma createOutputs_scenarioC_low:
  "createOutputs acceptingSdk scenarioC_low = Inr (map recreatedOutput scenarioC_low)"
  by (simp add: scenarioC_low_def exampleBox_def acceptingSdk_def newOutputBuilder_def
      recreatedOutput_def)

lemma rent_scenarioC: "sum_list (map rentFee scenarioC) = 150000000"
  by (simp add: scenarioC_def exampleBox_def)

lemma rent_scenarioC_low: "sum_list (map rentFee scenarioC_low) = 800000"
  by (simp add: scenarioC_low_def exampleBox_def)

lemma build_scenarioC:
  "150000000 > fee \<Longrightarrow>
   buildStorageRentTransaction acceptingSdk fee (nodeHolding scenarioC) scenarioC ''9hWallet'' 2000
     = Inr \<lparr>unsignedTx =
             \<lparr>txCreationHeight = 2000,
              txInputs =
                [\<lparr>inputBox = nodeDataOf (exampleBox ''a1'' 1000 500000000 100000000),
                   contextExtension127 = 0\<rparr>,
                 \<lparr>inputBox = nodeDataOf (exampleBox ''b2'' 1000 300000000 50000000),
                   contextExtension127 = 1\<rparr>],
              txOutputs = map recreatedOutput scenarioC @
                [\<lparr>outValue = 150000000 - fee, recipient = fromBase58 ''9hWallet'',
                  tokens = [], registers = []\<rparr>],
              txChangeAddress = fromBase58 ''9hWallet'', txFee = fee\<rparr>,
           inputBoxes =
             [\<lparr>inputBox = nodeDataOf (exampleBox ''a1'' 1000 500000000 100000000),
                contextExtension127 = 0\<rparr>,
              \<lparr>inputBox = nodeDataOf (exampleBox ''b2'' 1000 300000000 50000000),
                contextExtension127 = 1\<rparr>],
           totalRentCollected = 150000000\<rparr>"
  by (simp add: build_cases createInputs_scenarioC createOutputs_scenarioC rent_scenarioC)
     (simp add: acceptingSdk_def)

text \<open>
  C1. Whenever \<^verbatim>\<open>buildStorageRentTransaction\<close> returns, the transaction it hands to the
  builder is balanced: the values of the boxes add up to the values of the outputs plus the
  fee. The outputs are one recreated output per box, in order, with the value
  \<open>box.value - box.rentFee\<close>, followed by the one output to the change address; every
  output value is above 0; the inputs are the node's data for the box ids, in order, and
  when the node reports the value each box was discovered with, the input values balance
  too.
\<close>

theorem build_balanced:
  assumes "buildStorageRentTransaction sdk fee getBox boxes addr h = Inr r"
  shows "sum_list (map boxValue boxes)
           = sum_list (map outValue (txOutputs (unsignedTx r))) + txFee (unsignedTx r) \<and>
         txOutputs (unsignedTx r) = map recreatedOutput boxes @
            [\<lparr>outValue = sum_list (map rentFee boxes) - fee, recipient = fromBase58 addr,
              tokens = [], registers = []\<rparr>] \<and>
         map outValue (map recreatedOutput boxes) = map (\<lambda>b. boxValue b - rentFee b) boxes \<and>
         txFee (unsignedTx r) = fee \<and>
         map (\<lambda>x. Inr (Some (inputBox x))) (txInputs (unsignedTx r))
           = map (\<lambda>b. getBox (boxId b)) boxes \<and>
         (map (nodeValue \<circ> inputBox) (txInputs (unsignedTx r)) = map boxValue boxes \<longrightarrow>
            sum_list (map (nodeValue \<circ> inputBox) (txInputs (unsignedTx r)))
              = sum_list (map outValue (txOutputs (unsignedTx r))) + txFee (unsignedTx r)) \<and>
         list_all (\<lambda>out. 0 < outValue out) (txOutputs (unsignedTx r))"
proof -
  from build_Inr [OF assms] obtain ins where ins: "createInputs sdk getBox boxes 0 = Inr ins"
    and pos: "list_all (\<lambda>out. 0 < outValue out) (map recreatedOutput boxes)"
    and fee: "fee < sum_list (map rentFee boxes)"
    and r: "r = \<lparr>unsignedTx =
                 \<lparr>txCreationHeight = h, txInputs = ins,
                  txOutputs = map recreatedOutput boxes @
                    [\<lparr>outValue = sum_list (map rentFee boxes) - fee, recipient = fromBase58 addr,
                      tokens = [], registers = []\<rparr>],
                  txChangeAddress = fromBase58 addr, txFee = fee\<rparr>,
               inputBoxes = ins, totalRentCollected = sum_list (map rentFee boxes)\<rparr>"
    by blast
  have main: "sum_list (map boxValue boxes)
           = sum_list (map outValue (txOutputs (unsignedTx r))) + txFee (unsignedTx r) \<and>
         txOutputs (unsignedTx r) = map recreatedOutput boxes @
            [\<lparr>outValue = sum_list (map rentFee boxes) - fee, recipient = fromBase58 addr,
              tokens = [], registers = []\<rparr>] \<and>
         map outValue (map recreatedOutput boxes) = map (\<lambda>b. boxValue b - rentFee b) boxes \<and>
         txFee (unsignedTx r) = fee \<and>
         map (\<lambda>x. Inr (Some (inputBox x))) (txInputs (unsignedTx r))
           = map (\<lambda>b. getBox (boxId b)) boxes \<and>
         (map (nodeValue \<circ> inputBox) (txInputs (unsignedTx r)) = map boxValue boxes \<longrightarrow>
            sum_list (map (nodeValue \<circ> inputBox) (txInputs (unsignedTx r)))
              = sum_list (map outValue (txOutputs (unsignedTx r))) + txFee (unsignedTx r))"
    using createInputs_map [OF ins]
    by (simp add: r sum_recreated recreatedOutput_def)
  have "list_all (\<lambda>out. 0 < outValue out) (txOutputs (unsignedTx r))"
    using pos fee by (simp add: r)
  with main show ?thesis by blast
qed

theorem build_balanced_witness:
  "\<exists>r. buildStorageRentTransaction acceptingSdk 1000000 (nodeHolding scenarioC) scenarioC
          ''9hWallet'' 2000 = Inr r \<and>
       sum_list (map boxValue scenarioC) = 800000000 \<and>
       sum_list (map outValue (txOutputs (unsignedTx r))) + txFee (unsignedTx r) = 800000000 \<and>
       map outValue (txOutputs (unsignedTx r)) = [400000000, 250000000, 149000000] \<and>
       sum_list (map (nodeValue \<circ> inputBox) (txInputs (unsignedTx r))) = 800000000"
proof -
  obtain r where r: "buildStorageRentTransaction acceptingSdk 1000000 (nodeHolding scenarioC)
                       scenarioC ''9hWallet'' 2000 = Inr r"
    by (simp add: build_scenarioC)
  have ins: "txInputs (unsignedTx r) =
     [\<lparr>inputBox = nodeDataOf (exampleBox ''a1'' 1000 500000000 100000000),
        contextExtension127 = 0\<rparr>,
      \<lparr>inputBox = nodeDataOf (exampleBox ''b2'' 1000 300000000 50000000),
        contextExtension127 = 1\<rparr>]"
    using r by (auto simp: build_scenarioC)
  have vals: "map (nodeValue \<circ> inputBox) (txInputs (unsignedTx r)) = map boxValue scenarioC"
    by (simp add: ins scenarioC_def exampleBox_def nodeDataOf_def)
  from build_balanced [OF r] vals show ?thesis
    using r by (simp add: scenarioC_def exampleBox_def recreatedOutput_def)
qed

text \<open>
  C2 (amended). The builder credits exactly \<open>totalRentCollected - networkFee\<close> to the change
  address whenever it returns, and it returns only with
  \<open>networkFee < totalRentCollected\<close>. With \<open>totalRentCollected \<le> networkFee\<close> it always
  fails, and the error \<^verbatim>\<open>Not enough rent collected\<close> is thrown only then. When the
  steps before the rent check succeed (every box of the batch is found on the node and its
  input is created, the SDK accepts the change address, and every recreated output is
  created, its value \<open>box.value - box.rentFee\<close> being above 0), the builder fails with that
  error if and only if \<open>totalRentCollected \<le> networkFee\<close>.
\<close>

theorem rent_funds_fee:
  "(\<forall>r. buildStorageRentTransaction sdk fee getBox boxes addr h = Inr r \<longrightarrow>
        last (txOutputs (unsignedTx r)) =
          \<lparr>outValue = sum_list (map rentFee boxes) - fee, recipient = fromBase58 addr,
            tokens = [], registers = []\<rparr> \<and>
        totalRentCollected r = sum_list (map rentFee boxes) \<and>
        fee < sum_list (map rentFee boxes)) \<and>
   (sum_list (map rentFee boxes) \<le> fee \<longrightarrow>
        isl (buildStorageRentTransaction sdk fee getBox boxes addr h)) \<and>
   (\<forall>a b. buildStorageRentTransaction sdk fee getBox boxes addr h
             = Inl (NotEnoughRentCollected a b)
        \<longrightarrow> sum_list (map rentFee boxes) \<le> fee \<and> a = sum_list (map rentFee boxes) \<and> b = fee) \<and>
   (\<forall>ins outs. createInputs sdk getBox boxes 0 = Inr ins \<and> addressAccepted sdk addr \<and>
        createOutputs sdk boxes = Inr outs \<longrightarrow>
        (buildStorageRentTransaction sdk fee getBox boxes addr h
           = Inl (NotEnoughRentCollected (sum_list (map rentFee boxes)) fee))
        = (sum_list (map rentFee boxes) \<le> fee))"
proof (intro conjI allI impI)
  fix r
  assume r: "buildStorageRentTransaction sdk fee getBox boxes addr h = Inr r"
  from build_Inr [OF r]
  show "last (txOutputs (unsignedTx r)) =
          \<lparr>outValue = sum_list (map rentFee boxes) - fee, recipient = fromBase58 addr,
            tokens = [], registers = []\<rparr>"
    and "totalRentCollected r = sum_list (map rentFee boxes)"
    and "fee < sum_list (map rentFee boxes)"
    by auto
next
  assume "sum_list (map rentFee boxes) \<le> fee"
  then show "isl (buildStorageRentTransaction sdk fee getBox boxes addr h)"
    by (auto simp: build_cases split: sum.splits)
next
  fix a b
  assume e: "buildStorageRentTransaction sdk fee getBox boxes addr h
               = Inl (NotEnoughRentCollected a b)"
  have all: "sum_list (map rentFee boxes) \<le> fee \<and> a = sum_list (map rentFee boxes) \<and> b = fee"
    using e createInputs_no_rent_error [of sdk getBox boxes 0 a b]
      createOutputs_no_rent_error [of sdk boxes a b]
    by (auto simp: build_cases split: sum.splits if_splits)
  from all show "sum_list (map rentFee boxes) \<le> fee" by simp
  from all show "a = sum_list (map rentFee boxes)" by simp
  from all show "b = fee" by simp
next
  fix ins outs
  assume "createInputs sdk getBox boxes 0 = Inr ins \<and> addressAccepted sdk addr \<and>
        createOutputs sdk boxes = Inr outs"
  then show "(buildStorageRentTransaction sdk fee getBox boxes addr h
           = Inl (NotEnoughRentCollected (sum_list (map rentFee boxes)) fee))
        = (sum_list (map rentFee boxes) \<le> fee)"
    by (auto simp: build_cases)
qed

text \<open>Scenario C: with the rent fees 100,000,000 and 50,000,000 and the fee 1,000,000 the
  change output is 149,000,000 (148,900,000 with the SDK's fee of 1,100,000); with 400,000
  each the builder fails for lack of rent.\<close>

theorem rent_funds_fee_witness:
  "(\<exists>r. buildStorageRentTransaction acceptingSdk 1000000 (nodeHolding scenarioC) scenarioC
          ''9hWallet'' 2000 = Inr r \<and>
        outValue (last (txOutputs (unsignedTx r))) = 149000000 \<and>
        recipient (last (txOutputs (unsignedTx r))) = fromBase58 ''9hWallet'' \<and>
        totalRentCollected r = 150000000) \<and>
   (\<exists>r. buildStorageRentTransaction acceptingSdk 1100000 (nodeHolding scenarioC) scenarioC
          ''9hWallet'' 2000 = Inr r \<and>
        outValue (last (txOutputs (unsignedTx r))) = 148900000) \<and>
   buildStorageRentTransaction acceptingSdk 1000000 (nodeHolding scenarioC_low) scenarioC_low
       ''9hWallet'' 2000
     = Inl (NotEnoughRentCollected 800000 1000000) \<and>
   buildStorageRentTransaction acceptingSdk 1100000 (nodeHolding scenarioC_low) scenarioC_low
       ''9hWallet'' 2000
     = Inl (NotEnoughRentCollected 800000 1100000)"
proof -
  obtain r where r: "buildStorageRentTransaction acceptingSdk 1000000 (nodeHolding scenarioC)
                       scenarioC ''9hWallet'' 2000 = Inr r"
    by (simp add: build_scenarioC)
  note inst = rent_funds_fee [of acceptingSdk 1000000 "nodeHolding scenarioC" scenarioC
      "''9hWallet''" 2000]
  from inst r have "last (txOutputs (unsignedTx r)) =
          \<lparr>outValue = sum_list (map rentFee scenarioC) - 1000000,
            recipient = fromBase58 ''9hWallet'', tokens = [], registers = []\<rparr> \<and>
        totalRentCollected r = sum_list (map rentFee scenarioC)"
    by blast
  then have high: "outValue (last (txOutputs (unsignedTx r))) = 149000000 \<and>
        recipient (last (txOutputs (unsignedTx r))) = fromBase58 ''9hWallet'' \<and>
        totalRentCollected r = 150000000"
    by (simp add: rent_scenarioC)
  obtain r' where r': "buildStorageRentTransaction acceptingSdk 1100000 (nodeHolding scenarioC)
                       scenarioC ''9hWallet'' 2000 = Inr r'"
    by (simp add: build_scenarioC)
  note inst' = rent_funds_fee [of acceptingSdk 1100000 "nodeHolding scenarioC" scenarioC
      "''9hWallet''" 2000]
  from inst' r' have "last (txOutputs (unsignedTx r')) =
          \<lparr>outValue = sum_list (map rentFee scenarioC) - 1100000,
            recipient = fromBase58 ''9hWallet'', tokens = [], registers = []\<rparr>"
    by blast
  then have high': "outValue (last (txOutputs (unsignedTx r'))) = 148900000"
    by (simp add: rent_scenarioC)
  have pre: "createInputs acceptingSdk (nodeHolding scenarioC_low) scenarioC_low 0 = Inr
       [\<lparr>inputBox = nodeDataOf (exampleBox ''a1'' 1000 500000000 400000),
          contextExtension127 = 0\<rparr>,
        \<lparr>inputBox = nodeDataOf (exampleBox ''b2'' 1000 300000000 400000),
          contextExtension127 = 1\<rparr>] \<and>
      addressAccepted acceptingSdk ''9hWallet'' \<and>
      createOutputs acceptingSdk scenarioC_low = Inr (map recreatedOutput scenarioC_low)"
  proof -
    have "addressAccepted acceptingSdk ''9hWallet''" by (simp add: acceptingSdk_def)
    with createInputs_scenarioC_low createOutputs_scenarioC_low show ?thesis by blast
  qed
  note instL = rent_funds_fee [of acceptingSdk 1000000 "nodeHolding scenarioC_low" scenarioC_low
      "''9hWallet''" 2000]
  from instL pre
  have "(buildStorageRentTransaction acceptingSdk 1000000 (nodeHolding scenarioC_low)
           scenarioC_low ''9hWallet'' 2000
           = Inl (NotEnoughRentCollected (sum_list (map rentFee scenarioC_low)) 1000000))
        = (sum_list (map rentFee scenarioC_low) \<le> 1000000)"
    by blast
  then have low: "buildStorageRentTransaction acceptingSdk 1000000 (nodeHolding scenarioC_low)
               scenarioC_low ''9hWallet'' 2000 = Inl (NotEnoughRentCollected 800000 1000000)"
    by (simp add: rent_scenarioC_low)
  note instL' = rent_funds_fee [of acceptingSdk 1100000 "nodeHolding scenarioC_low" scenarioC_low
      "''9hWallet''" 2000]
  from instL' pre
  have "(buildStorageRentTransaction acceptingSdk 1100000 (nodeHolding scenarioC_low)
           scenarioC_low ''9hWallet'' 2000
           = Inl (NotEnoughRentCollected (sum_list (map rentFee scenarioC_low)) 1100000))
        = (sum_list (map rentFee scenarioC_low) \<le> 1100000)"
    by blast
  then have low': "buildStorageRentTransaction acceptingSdk 1100000 (nodeHolding scenarioC_low)
               scenarioC_low ''9hWallet'' 2000 = Inl (NotEnoughRentCollected 800000 1100000)"
    by (simp add: rent_scenarioC_low)
  from r high r' high' low low' show ?thesis by blast
qed

text \<open>The claim as stated fails when an earlier step of the builder fails. With one box of
  rent fee 400,000 the rent does not cover the fee of 1,100,000; when the node no longer
  returns the box, the builder fails with \<^verbatim>\<open>Failed to create Fleet SDK input\<close>, and when
  the box is found but its value equals its rent fee, the recreated output has the value 0
  and \<^verbatim>\<open>new OutputBuilder\<close> throws: in neither case is the rent error thrown.\<close>

theorem rent_error_preempted_counterexample:
  "buildStorageRentTransaction acceptingSdk 1100000 (nodeHolding [])
      [exampleBox ''a1'' 1000 500000000 400000] ''9hWallet'' 2000
     = Inl (FailedToCreateInput ''a1'') \<and>
   sum_list (map rentFee [exampleBox ''a1'' 1000 500000000 400000]) \<le> 1100000 \<and>
   buildStorageRentTransaction acceptingSdk 1100000
      (nodeHolding [exampleBox ''a1'' 1000 400000 400000])
      [exampleBox ''a1'' 1000 400000 400000] ''9hWallet'' 2000
     = Inl (OutputValueNotPositive 0) \<and>
   sum_list (map rentFee [exampleBox ''a1'' 1000 400000 400000]) \<le> 1100000"
  by (simp add: build_cases nodeHolding_def exampleBox_def acceptingSdk_def newOutputBuilder_def
      recreatedOutput_def)

section \<open>Properties of signing and submitting\<close>

text \<open>
  C10. For every input and every behaviour of the parser, the signer and the node,
  \<^verbatim>\<open>fromUnsigned\<close> returns a pair: \<^verbatim>\<open>[null, null]\<close> exactly when parsing, signing,
  broadcasting or reading back the signed transaction fails, and otherwise the transaction
  id the node returned together with the signed transaction. No failure of the
  \<^verbatim>\<open>try\<close> block escapes.
\<close>

theorem fromUnsigned_total:
  "(fromUnsigned env tx = (None, None) \<or> (\<exists>txId signed. fromUnsigned env tx = (Some txId, Some signed))) \<and>
   (fromUnsigned env tx = (None, None)) =
     (\<not> from_json env tx \<or> sign_transaction env tx = None \<or>
      (\<exists>signed. sign_transaction env tx = Some signed \<and>
         (postTransaction env signed = None \<or> \<not> parseSignedJson env signed))) \<and>
   (\<forall>signed txId. from_json env tx \<and> sign_transaction env tx = Some signed \<and>
        postTransaction env signed = Some txId \<and> parseSignedJson env signed
      \<longrightarrow> fromUnsigned env tx = (Some txId, Some signed))"
  by (auto simp: fromUnsigned_def fromUnsignedTry_def split: option.splits)

theorem fromUnsigned_total_witness:
  "fromUnsigned (quietEnv 2000) exampleTx = (Some ''txid1'', Some (SignedTx exampleTx [])) \<and>
   fromUnsigned ((quietEnv 2000)\<lparr>sign_transaction := (\<lambda>tx. None)\<rparr>) exampleTx = (None, None)"
  using fromUnsigned_total [of "quietEnv 2000" exampleTx]
    fromUnsigned_total [of "(quietEnv 2000)\<lparr>sign_transaction := (\<lambda>tx. None)\<rparr>" exampleTx]
  by (simp add: quietEnv_def)

section \<open>Properties of the confirmation monitor\<close>







section \<open>Properties of the scan\<close>

lemma cand_a1: "candidateBox flakyEnv defaultConfig 2000 500 ''a1'' = Some scannedA1"
  by (simp add: candidateBox_def flakyEnv_def quietEnv_def nodeDataOf_def exampleBox_def isSpent_def
      calculateBoxSize_def valueCheck_def BigInt_times_exact defaultConfig_def scannedA1_def)

lemma cand_zz: "candidateBox flakyEnv defaultConfig 2000 500 ''zz'' = None"
  by (simp add: candidateBox_def flakyEnv_def quietEnv_def)

text \<open>
  C6 (amended). During a scan, a failing request for one box id is caught and the scan
  goes on with the next id of the page, in the same state. A failing page request is caught
  as well: the scan does not stop, it goes on with the next page, and the offset (which
  becomes the returned cursor) has moved down by the page size.
\<close>

theorem scan_failures_skipped:
  "(blockchainBoxById env i = None \<longrightarrow>
      scanBoxIds env config cur minAge target offset boxIds (i # rest) m found
        = scanBoxIds env config cur minAge target offset boxIds rest m found) \<and>
   (found < target \<and> boxRange env offset = None \<longrightarrow>
      scanPages (Suc fuel) env config cur minAge target offset nxt m found
        = scanPages fuel env config cur minAge target (offset - 1000) (offset - 1000) m found)"
  by (simp add: candidateBox_def batchSize_def)

theorem scan_failures_skipped_witness:
  "scanBoxIds flakyEnv defaultConfig 2000 500 1 4000 [''zz'', ''a1''] [''zz'', ''a1''] [] 0
     = Returned \<lparr>boxesByHeight = [(1000, [scannedA1])], nextOffset = 3001\<rparr> \<and>
   scanPages 2 flakyEnv defaultConfig 2000 500 1 5000 5000 [] 0
     = Some \<lparr>boxesByHeight = [(1000, [scannedA1])], nextOffset = 3001\<rparr>"
proof -
  have b: "blockchainBoxById flakyEnv ''zz'' = None"
    by (simp add: flakyEnv_def)
  have p: "(0::int) < 1 \<and> boxRange flakyEnv 5000 = None"
    by (simp add: flakyEnv_def)
  have p4: "boxRange flakyEnv 4000 = Some [''a1'', ''zz'']"
    by (simp add: flakyEnv_def)
  have a1: "scanBoxIds flakyEnv defaultConfig 2000 500 1 4000 [''zz'', ''a1''] [''a1''] [] 0
     = Returned \<lparr>boxesByHeight = [(1000, [scannedA1])], nextOffset = 3001\<rparr>"
    by (simp add: cand_a1 Map_push_def Map_has_def Map_get_def batchSize_def scannedA1_def exampleBox_def)
  from scan_failures_skipped [where env = flakyEnv and i = "''zz''" and config = defaultConfig
      and cur = 2000 and minAge = 500 and target = 1 and offset = 4000
      and boxIds = "[''zz'', ''a1'']" and rest = "[''a1'']" and m = "[]" and found = 0] b
  have s1: "scanBoxIds flakyEnv defaultConfig 2000 500 1 4000 [''zz'', ''a1''] [''zz'', ''a1''] [] 0
        = scanBoxIds flakyEnv defaultConfig 2000 500 1 4000 [''zz'', ''a1''] [''a1''] [] 0"
    by blast
  from scan_failures_skipped [where env = flakyEnv and config = defaultConfig
      and cur = 2000 and minAge = 500 and target = 1 and offset = 5000 and m = "[]" and found = 0
      and fuel = 1 and nxt = 5000] p
  have s2: "scanPages (Suc 1) flakyEnv defaultConfig 2000 500 1 5000 5000 [] 0
        = scanPages 1 flakyEnv defaultConfig 2000 500 1 (5000 - 1000) (5000 - 1000) [] 0"
    by blast
  have "scanPages 1 flakyEnv defaultConfig 2000 500 1 4000 4000 [] 0
        = Some \<lparr>boxesByHeight = [(1000, [scannedA1])], nextOffset = 3001\<rparr>"
    using s1 a1 by (simp add: p4)
  with s2 have "scanPages (Suc 1) flakyEnv defaultConfig 2000 500 1 5000 5000 [] 0
        = Some \<lparr>boxesByHeight = [(1000, [scannedA1])], nextOffset = 3001\<rparr>"
    by simp
  moreover have "Suc 1 = 2" by simp
  ultimately show ?thesis using s1 a1 by (simp only:) 
qed

text \<open>The claim as stated fails: a scan from the cursor 5000 whose first page request
  fails goes on to the page at 4000, skips the failing box id, buckets the box \<open>a1\<close>
  and returns the cursor 3001, not 5000.\<close>

theorem page_failure_moves_cursor_counterexample:
  "boxRange flakyEnv 5000 = None \<and>
   scanForEligibleBoxes 2 flakyEnv defaultConfig 2000 500 5000 1
     = Some \<lparr>boxesByHeight = [(1000, [scannedA1])], nextOffset = 3001\<rparr>"
  by (simp add: scanForEligibleBoxes_def eval_nat_numeral flakyEnv_def quietEnv_def batchSize_def
       candidateBox_def nodeDataOf_def exampleBox_def isSpent_def
      calculateBoxSize_def valueCheck_def BigInt_times_exact defaultConfig_def scannedA1_def
      Map_push_def Map_has_def Map_get_def)

section \<open>Properties of the cycle\<close>

lemma processBatchTry_returned:
  "processBatchTry env config db boxes k = Inr (r, db') \<Longrightarrow>
   successfulTransactions r = 1 \<and> failedTransactions r = 0 \<and> errors r = [] \<and>
   processedBoxes r = length boxes"
  by (auto simp: processBatchTry_def Let_def
      split: sum.splits option.splits prod.splits if_splits)

text \<open>The result of the loop over the batches records exactly the errors thrown in the
  \<^verbatim>\<open>try\<close> blocks, and counts one transaction for each batch that is not skipped.\<close>

lemma processBatches_records:
  "errors (fst (processBatches env config db batches i result))
     = errors result @ map (\<lambda>(k, e). BatchFailed k e) (thrownInBatches env config db batches i) \<and>
   failedTransactions (fst (processBatches env config db batches i result))
     = failedTransactions result + length (thrownInBatches env config db batches i) \<and>
   successfulTransactions (fst (processBatches env config db batches i result))
     + failedTransactions (fst (processBatches env config db batches i result))
     = successfulTransactions result + failedTransactions result
       + length (filter (\<lambda>batch. batch \<noteq> []) batches)"
proof (induction batches arbitrary: db i result)
  case Nil
  then show ?case by simp
next
  case (Cons batch batches)
  show ?case
  proof (cases "batch = []")
    case True
    then show ?thesis using Cons.IH [of db "Suc i" result] by simp
  next
    case False
    show ?thesis
    proof (cases "processBatchTry env config db batch (Suc i)")
      case (Inl x)
      obtain e db' where x: "x = (e, db')" by (cases x)
      let ?br = "emptyResult\<lparr>failedTransactions := 1, errors := [BatchFailed (Suc i) e]\<rparr>"
      have pb: "processBatch env config db batch (Suc i) = (?br, db')"
        by (simp add: processBatch_def Inl x)
      have th: "thrownInBatches env config db (batch # batches) i
                  = (Suc i, e) # thrownInBatches env config db' batches (Suc i)"
        using False by (simp add: Inl x)
      have pbs: "processBatches env config db (batch # batches) i result
                  = processBatches env config db' batches (Suc i) (addResult result ?br)"
        using False by (simp add: pb)
      show ?thesis
        unfolding pbs th using Cons.IH [of db' "Suc i" "addResult result ?br"]
        by (simp add: addResult_def emptyResult_def False)
    next
      case (Inr y)
      obtain r db' where y: "y = (r, db')" by (cases y)
      have ok: "successfulTransactions r = 1 \<and> failedTransactions r = 0 \<and> errors r = []"
        using processBatchTry_returned [of env config db batch "Suc i" r db'] Inr y by simp
      have pb: "processBatch env config db batch (Suc i) = (r, db')"
        by (simp add: processBatch_def Inr y)
      have th: "thrownInBatches env config db (batch # batches) i
                  = thrownInBatches env config db' batches (Suc i)"
        using False by (simp add: Inr y)
      have pbs: "processBatches env config db (batch # batches) i result
                  = processBatches env config db' batches (Suc i) (addResult result r)"
        using False by (simp add: pb)
      show ?thesis
        unfolding pbs th using Cons.IH [of db' "Suc i" "addResult result r"] ok
        by (simp add: addResult_def False)
    qed
  qed
qed

lemma batchesFrom_nonempty:
  "filter (\<lambda>batch. batch \<noteq> []) (batchesFrom n boxes) = batchesFrom n boxes"
proof (induction n boxes rule: batchesFrom.induct)
  case (1 n boxes)
  show ?case
  proof (cases "n = 0 \<or> boxes = []")
    case True
    then show ?thesis by (simp add: batchesFrom.simps [of n boxes])
  next
    case False
    then have "take n boxes \<noteq> []" by simp
    with False 1 show ?thesis by (simp add: batchesFrom.simps [of n boxes])
  qed
qed

lemma processEligibleBoxes_records:
  assumes m: "1 \<le> maxBoxesPerTx config"
  shows "\<exists>result db'. processEligibleBoxes env config db boxes = Some (Inr (result, db')) \<and>
      errors result = map (\<lambda>(k, e). BatchFailed k e)
        (thrownInBatches env config (saveEligible env db boxes)
           (batchesFrom (nat (maxBoxesPerTx config)) boxes) 0) \<and>
      failedTransactions result = length
        (thrownInBatches env config (saveEligible env db boxes)
           (batchesFrom (nat (maxBoxesPerTx config)) boxes) 0) \<and>
      successfulTransactions result + failedTransactions result
        = length (batchesFrom (nat (maxBoxesPerTx config)) boxes)"
proof -
  have v: "filter (\<lambda>box. boxId box \<in> set (map boxId boxes)) boxes = boxes"
    by (induction boxes) auto
  show ?thesis
  proof (cases "boxes = []")
    case True
    then show ?thesis
      by (simp add: processEligibleBoxes_def emptyResult_def batchesFrom.simps [of _ "[]"])
  next
    case False
    let ?db1 = "saveEligible env db boxes"
    let ?bs = "batchesFrom (nat (maxBoxesPerTx config)) boxes"
    obtain r d where pb: "processBatches env config ?db1 ?bs 0 emptyResult = (r, d)"
      by (cases "processBatches env config ?db1 ?bs 0 emptyResult")
    have rec: "errors r = map (\<lambda>(k, e). BatchFailed k e) (thrownInBatches env config ?db1 ?bs 0) \<and>
       failedTransactions r = length (thrownInBatches env config ?db1 ?bs 0) \<and>
       successfulTransactions r + failedTransactions r = length ?bs"
      using processBatches_records [of env config ?db1 ?bs 0 emptyResult] pb
      by (simp add: emptyResult_def batchesFrom_nonempty)
    have "processEligibleBoxes env config db boxes = Some (Inr (r, d))"
      using False m pb
      by (simp add: processEligibleBoxes_def validateBoxes_def v createTransactionBatches_def Let_def)
    with rec show ?thesis by blast
  qed
qed

lemma processEligibleBoxes_no_throw:
  "processEligibleBoxes env config db boxes \<noteq> Some (Inl x)"
  by (simp add: processEligibleBoxes_def validateBoxes_def Let_def split: option.splits)

text \<open>
  C4 (amended). A cycle in which the height request of the cycle fails does not return a
  summary: the error is logged and rethrown, with the state unchanged, and this is the
  only error a cycle throws. When the height request succeeds, the batch size
  (\<^verbatim>\<open>maxBoxesPerTx\<close>) is at least 1 and the scan (if one is due) returns, the cycle
  returns a result summary, and every failure inside a batch (height, box lookup, build,
  signing, broadcast, database) is caught and recorded: the error list of the summary
  holds, in order, one message \<^verbatim>\<open>Batch n failed: error\<close> for each batch whose
  \<^verbatim>\<open>try\<close> block throws, with the number of the batch and the error thrown,
  \<^verbatim>\<open>failedTransactions\<close> counts these batches, and every batch is counted either as a
  successful or as a failed transaction.
\<close>

theorem cycle_outcomes:
  "(infoFullHeight env 0 = None \<longrightarrow>
      runScanAndProcess fuel env config st db = Some (Inl (FailedToGetCurrentHeight, st, db))) \<and>
   (\<forall>e st' db'. runScanAndProcess fuel env config st db = Some (Inl (e, st', db')) \<longrightarrow>
      e = FailedToGetCurrentHeight \<and> infoFullHeight env 0 = None) \<and>
   (\<forall>h. infoFullHeight env 0 = Some h \<and> 1 \<le> maxBoxesPerTx config \<and>
        (50 \<le> h - lastQueueScanHeight st \<longrightarrow>
           scanForEligibleBoxes fuel env config h (minStorageRentAgeBlocks config)
             (lastSearchOffset st) 50 \<noteq> None)
      \<longrightarrow> (\<exists>result st' db'.
             runScanAndProcess fuel env config st db = Some (Inr (result, st', db')) \<and>
             failedTransactions result = length (errors result))) \<and>
   (\<forall>h st1 nowEligible heightsToRemove q'.
        infoFullHeight env 0 = Some h \<and> 1 \<le> maxBoxesPerTx config \<and>
        (if 50 \<le> h - lastQueueScanHeight st
         then \<exists>r. scanForEligibleBoxes fuel env config h (minStorageRentAgeBlocks config)
                     (lastSearchOffset st) 50 = Some r \<and>
                  st1 = st\<lparr>queuedBoxesByHeight :=
                              mergeScan (boxesByHeight r) (queuedBoxesByHeight st),
                            lastQueueScanHeight := h, lastSearchOffset := nextOffset r\<rparr>
         else st1 = st) \<and>
        promote h (minStorageRentAgeBlocks config) (queuedBoxesByHeight st1)
          = (nowEligible, heightsToRemove, q')
      \<longrightarrow> (\<exists>result db'.
             runScanAndProcess fuel env config st db
               = Some (Inr (result, st1\<lparr>queuedBoxesByHeight := q'\<rparr>, db')) \<and>
             errors result = map (\<lambda>(k, e). BatchFailed k e)
               (thrownInBatches env config (saveEligible env db nowEligible)
                  (batchesFrom (nat (maxBoxesPerTx config)) nowEligible) 0) \<and>
             failedTransactions result = length
               (thrownInBatches env config (saveEligible env db nowEligible)
                  (batchesFrom (nat (maxBoxesPerTx config)) nowEligible) 0) \<and>
             successfulTransactions result + failedTransactions result
               = length (batchesFrom (nat (maxBoxesPerTx config)) nowEligible)))"
proof -
  have c1: "infoFullHeight env 0 = None \<longrightarrow>
      runScanAndProcess fuel env config st db = Some (Inl (FailedToGetCurrentHeight, st, db))"
    by (simp add: runScanAndProcess_def getCurrentHeight_def)
  have c2: "\<forall>e st' db'. runScanAndProcess fuel env config st db = Some (Inl (e, st', db')) \<longrightarrow>
      e = FailedToGetCurrentHeight \<and> infoFullHeight env 0 = None"
  proof (intro allI impI)
    fix e st' db'
    assume r: "runScanAndProcess fuel env config st db = Some (Inl (e, st', db'))"
    show "e = FailedToGetCurrentHeight \<and> infoFullHeight env 0 = None"
    proof (cases "infoFullHeight env 0")
      case None
      with r show ?thesis by (simp add: runScanAndProcess_def getCurrentHeight_def)
    next
      case (Some h)
      with r processEligibleBoxes_no_throw show ?thesis
        by (auto simp: runScanAndProcess_def getCurrentHeight_def Let_def
            split: option.splits prod.splits if_splits sum.splits)
    qed
  qed
  have c4: "\<exists>result db'.
             runScanAndProcess fuel env config st db
               = Some (Inr (result, st1\<lparr>queuedBoxesByHeight := q'\<rparr>, db')) \<and>
             errors result = map (\<lambda>(k, e). BatchFailed k e)
               (thrownInBatches env config (saveEligible env db nowEligible)
                  (batchesFrom (nat (maxBoxesPerTx config)) nowEligible) 0) \<and>
             failedTransactions result = length
               (thrownInBatches env config (saveEligible env db nowEligible)
                  (batchesFrom (nat (maxBoxesPerTx config)) nowEligible) 0) \<and>
             successfulTransactions result + failedTransactions result
               = length (batchesFrom (nat (maxBoxesPerTx config)) nowEligible)"
    if a: "infoFullHeight env 0 = Some h \<and> 1 \<le> maxBoxesPerTx config \<and>
        (if 50 \<le> h - lastQueueScanHeight st
         then \<exists>r. scanForEligibleBoxes fuel env config h (minStorageRentAgeBlocks config)
                     (lastSearchOffset st) 50 = Some r \<and>
                  st1 = st\<lparr>queuedBoxesByHeight :=
                              mergeScan (boxesByHeight r) (queuedBoxesByHeight st),
                            lastQueueScanHeight := h, lastSearchOffset := nextOffset r\<rparr>
         else st1 = st) \<and>
        promote h (minStorageRentAgeBlocks config) (queuedBoxesByHeight st1)
          = (nowEligible, heightsToRemove, q')"
    for h st1 nowEligible heightsToRemove q'
  proof -
    define scanned where "scanned =
       (if 50 \<le> h - lastQueueScanHeight st
        then (case scanForEligibleBoxes fuel env config h (minStorageRentAgeBlocks config)
                     (lastSearchOffset st) 50 of
                None \<Rightarrow> None
              | Some r \<Rightarrow>
                  Some (st\<lparr>queuedBoxesByHeight :=
                             mergeScan (boxesByHeight r) (queuedBoxesByHeight st),
                           lastQueueScanHeight := h, lastSearchOffset := nextOffset r\<rparr>))
        else Some st)"
    have s1: "scanned = Some st1"
      using a by (auto simp: scanned_def split: if_splits)
    from a have pr: "promote h (minStorageRentAgeBlocks config) (queuedBoxesByHeight st1)
                       = (nowEligible, heightsToRemove, q')"
      by blast
    from a have m: "1 \<le> maxBoxesPerTx config" by blast
    from processEligibleBoxes_records [OF m, of env db nowEligible]
    obtain result db' where pe: "processEligibleBoxes env config db nowEligible
                                   = Some (Inr (result, db'))"
      and rec: "errors result = map (\<lambda>(k, e). BatchFailed k e)
               (thrownInBatches env config (saveEligible env db nowEligible)
                  (batchesFrom (nat (maxBoxesPerTx config)) nowEligible) 0) \<and>
             failedTransactions result = length
               (thrownInBatches env config (saveEligible env db nowEligible)
                  (batchesFrom (nat (maxBoxesPerTx config)) nowEligible) 0) \<and>
             successfulTransactions result + failedTransactions result
               = length (batchesFrom (nat (maxBoxesPerTx config)) nowEligible)"
      by blast
    have run: "runScanAndProcess fuel env config st db =
        (if nowEligible = [] then Some (Inr (emptyResult, st1\<lparr>queuedBoxesByHeight := q'\<rparr>, db))
         else Some (Inr (result, st1\<lparr>queuedBoxesByHeight := q'\<rparr>, db')))"
      using a s1 pr pe
      by (simp add: runScanAndProcess_def getCurrentHeight_def Let_def scanned_def [symmetric])
    show ?thesis
    proof (cases "nowEligible = []")
      case True
      have "errors emptyResult = map (\<lambda>(k, e). BatchFailed k e)
               (thrownInBatches env config (saveEligible env db nowEligible)
                  (batchesFrom (nat (maxBoxesPerTx config)) nowEligible) 0) \<and>
             failedTransactions emptyResult = length
               (thrownInBatches env config (saveEligible env db nowEligible)
                  (batchesFrom (nat (maxBoxesPerTx config)) nowEligible) 0) \<and>
             successfulTransactions emptyResult + failedTransactions emptyResult
               = length (batchesFrom (nat (maxBoxesPerTx config)) nowEligible)"
        using True by (simp add: emptyResult_def batchesFrom.simps [of _ "[]"])
      with run True show ?thesis by simp
    next
      case False
      with run rec show ?thesis by simp
    qed
  qed
  have c3: "\<exists>result st' db'.
             runScanAndProcess fuel env config st db = Some (Inr (result, st', db')) \<and>
             failedTransactions result = length (errors result)"
    if a: "infoFullHeight env 0 = Some h \<and> 1 \<le> maxBoxesPerTx config \<and>
        (50 \<le> h - lastQueueScanHeight st \<longrightarrow>
           scanForEligibleBoxes fuel env config h (minStorageRentAgeBlocks config)
             (lastSearchOffset st) 50 \<noteq> None)"
    for h
  proof -
    obtain st1 where st1: "if 50 \<le> h - lastQueueScanHeight st
         then \<exists>r. scanForEligibleBoxes fuel env config h (minStorageRentAgeBlocks config)
                     (lastSearchOffset st) 50 = Some r \<and>
                  st1 = st\<lparr>queuedBoxesByHeight :=
                              mergeScan (boxesByHeight r) (queuedBoxesByHeight st),
                            lastQueueScanHeight := h, lastSearchOffset := nextOffset r\<rparr>
         else st1 = st"
      using a by (cases "50 \<le> h - lastQueueScanHeight st") auto
    obtain ne hr q' where pr: "promote h (minStorageRentAgeBlocks config) (queuedBoxesByHeight st1)
                                 = (ne, hr, q')"
      by (cases "promote h (minStorageRentAgeBlocks config) (queuedBoxesByHeight st1)")
    from c4 [of h st1 ne hr q'] a st1 pr
    obtain result db' where
      "runScanAndProcess fuel env config st db
               = Some (Inr (result, st1\<lparr>queuedBoxesByHeight := q'\<rparr>, db'))"
      and "errors result = map (\<lambda>(k, e). BatchFailed k e)
               (thrownInBatches env config (saveEligible env db ne)
                  (batchesFrom (nat (maxBoxesPerTx config)) ne) 0)"
      and "failedTransactions result = length
               (thrownInBatches env config (saveEligible env db ne)
                  (batchesFrom (nat (maxBoxesPerTx config)) ne) 0)"
      by blast
    then have "runScanAndProcess fuel env config st db
                 = Some (Inr (result, st1\<lparr>queuedBoxesByHeight := q'\<rparr>, db')) \<and>
               failedTransactions result = length (errors result)"
      by simp
    then show ?thesis by blast
  qed
  from c1 c2 c3 c4 show ?thesis by blast
qed

lemma thrown_with_spent_box:
  "thrownInBatches spentA1Env defaultConfig (saveEligible spentA1Env emptyDatabase [boxA1, boxB2])
       (batchesFrom (nat (maxBoxesPerTx defaultConfig)) [boxA1, boxB2]) 0
     = [(1, FailedToCreateInput ''a1'')]"
  by code_simp

lemma batches_with_spent_box:
  "batchesFrom (nat (maxBoxesPerTx defaultConfig)) [boxA1, boxB2] = [[boxA1, boxB2]]"
  by code_simp

lemma promote_queuedState:
  "promote 1060000 (minStorageRentAgeBlocks defaultConfig) (queuedBoxesByHeight queuedState)
     = ([boxA1, boxB2], [1000], [])"
  by code_simp

theorem cycle_outcomes_witness:
  "(\<exists>result db'.
       runScanAndProcess 0 spentA1Env defaultConfig queuedState emptyDatabase
         = Some (Inr (result, queuedState\<lparr>queuedBoxesByHeight := []\<rparr>, db')) \<and>
       errors result = [BatchFailed 1 (FailedToCreateInput ''a1'')] \<and>
       failedTransactions result = 1 \<and> successfulTransactions result = 0) \<and>
   runScanAndProcess 0 ((quietEnv 0)\<lparr>infoFullHeight := (\<lambda>k. None)\<rparr>) defaultConfig
       initialState emptyDatabase
     = Some (Inl (FailedToGetCurrentHeight, initialState, emptyDatabase))"
proof -
  have hyp: "infoFullHeight spentA1Env 0 = Some 1060000 \<and> 1 \<le> maxBoxesPerTx defaultConfig \<and>
        (if 50 \<le> 1060000 - lastQueueScanHeight queuedState
         then \<exists>r. scanForEligibleBoxes 0 spentA1Env defaultConfig 1060000
                     (minStorageRentAgeBlocks defaultConfig) (lastSearchOffset queuedState) 50
                       = Some r \<and>
                  queuedState = queuedState\<lparr>queuedBoxesByHeight :=
                              mergeScan (boxesByHeight r) (queuedBoxesByHeight queuedState),
                            lastQueueScanHeight := 1060000, lastSearchOffset := nextOffset r\<rparr>
         else queuedState = queuedState) \<and>
        promote 1060000 (minStorageRentAgeBlocks defaultConfig) (queuedBoxesByHeight queuedState)
          = ([boxA1, boxB2], [1000], [])"
    by (simp add: promote_queuedState)
       (simp add: spentA1Env_def quietEnv_def defaultConfig_def queuedState_def)
  note inst = cycle_outcomes [of spentA1Env 0 defaultConfig queuedState emptyDatabase]
  from inst hyp
  obtain result db' where
    r: "runScanAndProcess 0 spentA1Env defaultConfig queuedState emptyDatabase
          = Some (Inr (result, queuedState\<lparr>queuedBoxesByHeight := []\<rparr>, db'))"
    and e: "errors result = map (\<lambda>(k, e). BatchFailed k e)
               (thrownInBatches spentA1Env defaultConfig
                  (saveEligible spentA1Env emptyDatabase [boxA1, boxB2])
                  (batchesFrom (nat (maxBoxesPerTx defaultConfig)) [boxA1, boxB2]) 0)"
    and f: "failedTransactions result = length
               (thrownInBatches spentA1Env defaultConfig
                  (saveEligible spentA1Env emptyDatabase [boxA1, boxB2])
                  (batchesFrom (nat (maxBoxesPerTx defaultConfig)) [boxA1, boxB2]) 0)"
    and s: "successfulTransactions result + failedTransactions result
               = length (batchesFrom (nat (maxBoxesPerTx defaultConfig)) [boxA1, boxB2])"
    by blast
  have e': "errors result = [BatchFailed 1 (FailedToCreateInput ''a1'')]"
    unfolding e thrown_with_spent_box by simp
  have f': "failedTransactions result = 1"
    unfolding f thrown_with_spent_box by simp
  have s': "successfulTransactions result = 0"
    using s unfolding f' batches_with_spent_box by simp
  have down: "infoFullHeight ((quietEnv 0)\<lparr>infoFullHeight := (\<lambda>k. None)\<rparr>) 0 = None"
    by simp
  from cycle_outcomes [of "(quietEnv 0)\<lparr>infoFullHeight := (\<lambda>k. None)\<rparr>" 0 defaultConfig
      initialState emptyDatabase] down
  have t: "runScanAndProcess 0 ((quietEnv 0)\<lparr>infoFullHeight := (\<lambda>k. None)\<rparr>) defaultConfig
       initialState emptyDatabase
     = Some (Inl (FailedToGetCurrentHeight, initialState, emptyDatabase))"
    by blast
  from r e' f' s' t show ?thesis by blast
qed

text \<open>The claim as stated fails on a node error: when \<^verbatim>\<open>getCurrentHeight\<close> fails, the
  \<^verbatim>\<open>catch\<close> of the cycle logs the error and rethrows it.\<close>

theorem cycle_rethrows_counterexample:
  "runScanAndProcess 0 ((quietEnv 0)\<lparr>infoFullHeight := (\<lambda>k. None)\<rparr>) defaultConfig
       queuedState emptyDatabase
     = Some (Inl (FailedToGetCurrentHeight, queuedState, emptyDatabase))"
  by (simp add: runScanAndProcess_def getCurrentHeight_def)

text \<open>
  C9. \<^verbatim>\<open>validateBoxes\<close> returns every id as valid, so a spent box is not dropped: with
  \<open>a1\<close> spent and \<open>b2\<close> unspent, both boxes are in the one batch that is constructed, the
  build of that batch fails on \<open>a1\<close>, and \<open>b2\<close> is not claimed either.
\<close>

theorem spent_box_not_dropped:
  "validateBoxes (map boxId [boxA1, boxB2]) = \<lparr>valid = [''a1'', ''b2''], invalid = []\<rparr> \<and>
   getBoxById spentA1Env ''a1'' = Inr None \<and>
   createTransactionBatches defaultConfig
       (filter (\<lambda>box. boxId box \<in> set (valid (validateBoxes (map boxId [boxA1, boxB2]))))
          [boxA1, boxB2])
     = Some [[boxA1, boxB2]] \<and>
   (case processEligibleBoxes spentA1Env defaultConfig emptyDatabase [boxA1, boxB2] of
      Some (Inr (result, db')) \<Rightarrow>
        processedBoxes result = 0 \<and> successfulTransactions result = 0 \<and>
        failedTransactions result = 1 \<and>
        errors result = [BatchFailed 1 (FailedToCreateInput ''a1'')]
    | _ \<Rightarrow> False)"
  by code_simp

section \<open>Properties of the queue\<close>

lemma keys_Map_set: "set (map fst (Map_set q h bs)) = insert h (set (map fst q))"
proof (induction q)
  case Nil
  then show ?case by simp
next
  case (Cons p q)
  obtain k v where p: "p = (k, v)" by (cases p)
  show ?case
  proof (cases "k = h")
    case True
    then show ?thesis using p by simp
  next
    case False
    then show ?thesis using p Cons.IH by (simp add: insert_commute)
  qed
qed

lemma distinct_Map_set: "distinct (map fst q) \<Longrightarrow> distinct (map fst (Map_set q h bs))"
proof (induction q)
  case Nil
  then show ?case by simp
next
  case (Cons p q)
  obtain k v where p: "p = (k, v)" by (cases p)
  show ?case
  proof (cases "k = h")
    case True
    with Cons p show ?thesis by simp
  next
    case False
    have "k \<notin> set (map fst (Map_set q h bs))"
      using Cons.prems False p by (simp only: keys_Map_set) simp
    with Cons p False show ?thesis by simp
  qed
qed

lemma list_all_Map_set: "list_all P q \<Longrightarrow> P (h, bs) \<Longrightarrow> list_all P (Map_set q h bs)"
  by (induction q) auto

lemma list_all_mem: "list_all P xs \<Longrightarrow> x \<in> set xs \<Longrightarrow> P x"
  by (simp add: list_all_iff)

lemma Map_get_in: "Map_get q h = Some bs \<Longrightarrow> (h, bs) \<in> set q"
  by (simp add: Map_get_def map_of_SomeD)

lemma queueInv_push:
  assumes "queueInv node m"
    and "list_all (\<lambda>b. creationHeight b = h \<and>
           map_option nodeCreationHeight (node (boxId b)) = Some h) boxes"
  shows "queueInv node (Map_push m h boxes)"
proof -
  let ?P = "\<lambda>(h, bs). list_all (\<lambda>b. creationHeight b = h \<and>
                  map_option nodeCreationHeight (node (boxId b)) = Some h) bs"
  let ?m1 = "if \<not> Map_has m h then Map_set m h [] else m"
  have d1: "distinct (map fst ?m1)"
    using assms(1) by (simp add: queueInv_def distinct_Map_set)
  have a1: "list_all ?P ?m1"
    using assms(1) by (simp add: queueInv_def bucketedByNodeHeight_def list_all_Map_set)
  show ?thesis
  proof (cases "Map_get ?m1 h")
    case None
    then show ?thesis
      using d1 a1 by (simp add: Map_push_def queueInv_def bucketedByNodeHeight_def)
  next
    case (Some present)
    then have "(h, present) \<in> set ?m1" by (rule Map_get_in)
    with a1 have "?P (h, present)" by (rule list_all_mem)
    with assms(2) have pp: "?P (h, present @ boxes)" by simp
    have "list_all ?P (Map_set ?m1 h (present @ boxes))"
      by (rule list_all_Map_set [OF a1 pp])
    moreover have "distinct (map fst (Map_set ?m1 h (present @ boxes)))"
      using d1 by (rule distinct_Map_set)
    ultimately show ?thesis
      using Some by (simp add: Map_push_def queueInv_def bucketedByNodeHeight_def)
  qed
qed

lemma candidateBox_from_node:
  "candidateBox env config cur minAge i = Some b \<Longrightarrow>
     \<exists>d. blockchainBoxById env i = Some d \<and> boxId b = nodeBoxId d \<and>
         creationHeight b = nodeCreationHeight d"
  by (auto simp: candidateBox_def Let_def split: option.splits if_splits prod.splits)

lemma queueInv_candidate:
  assumes "answersAskedBox (blockchainBoxById env)"
    and "queueInv (blockchainBoxById env) m"
    and "candidateBox env config cur minAge i = Some b"
  shows "queueInv (blockchainBoxById env) (Map_push m (creationHeight b) [b])"
proof -
  from candidateBox_from_node [OF assms(3)] obtain d where
    d: "blockchainBoxById env i = Some d" "boxId b = nodeBoxId d"
       "creationHeight b = nodeCreationHeight d"
    by blast
  from assms(1) d(1) have "nodeBoxId d = i" by (simp add: answersAskedBox_def)
  with d have "map_option nodeCreationHeight (blockchainBoxById env (boxId b))
                 = Some (creationHeight b)"
    by simp
  then show ?thesis
    by (intro queueInv_push [OF assms(2)]) simp
qed

lemma queueInv_scanBoxIds:
  assumes "answersAskedBox (blockchainBoxById env)"
  shows "queueInv (blockchainBoxById env) m \<Longrightarrow>
     (case scanBoxIds env config cur minAge target offset boxIds ids m found of
        Returned r \<Rightarrow> queueInv (blockchainBoxById env) (boxesByHeight r)
      | Checked m' found' \<Rightarrow> queueInv (blockchainBoxById env) m')"
proof (induction ids arbitrary: m found)
  case Nil
  then show ?case by simp
next
  case (Cons i ids)
  show ?case
  proof (cases "candidateBox env config cur minAge i")
    case None
    with Cons show ?thesis by simp
  next
    case (Some b)
    have inv: "queueInv (blockchainBoxById env) (Map_push m (creationHeight b) [b])"
      using assms Cons.prems Some by (rule queueInv_candidate)
    show ?thesis
    proof (cases "found + 1 \<ge> target")
      case True
      with Some inv show ?thesis by (simp add: Let_def)
    next
      case False
      with Some Cons.IH [OF inv, of "found + 1"] show ?thesis by (simp add: Let_def)
    qed
  qed
qed

lemma queueInv_scanPages:
  assumes "answersAskedBox (blockchainBoxById env)"
  shows "queueInv (blockchainBoxById env) m \<Longrightarrow>
     scanPages fuel env config cur minAge target offset nxt m found = Some r \<Longrightarrow>
     queueInv (blockchainBoxById env) (boxesByHeight r)"
proof (induction fuel arbitrary: offset nxt m found)
  case 0
  then show ?case by (auto split: if_splits)
next
  case (Suc fuel)
  show ?case
  proof (cases "found < target")
    case False
    with Suc.prems show ?thesis by auto
  next
    case True
    show ?thesis
    proof (cases "boxRange env offset")
      case None
      with True Suc.prems have "scanPages fuel env config cur minAge target
          (offset - batchSize) (offset - batchSize) m found = Some r"
        by simp
      with Suc.IH Suc.prems(1) show ?thesis by blast
    next
      case (Some page)
      show ?thesis
      proof (cases "rev page = []")
        case True
        with \<open>found < target\<close> Some Suc.prems show ?thesis by auto
      next
        case False
        note step = queueInv_scanBoxIds [OF assms Suc.prems(1), of config cur minAge target offset
            "rev page" "rev page" found]
        show ?thesis
        proof (cases "scanBoxIds env config cur minAge target offset (rev page) (rev page) m found")
          case (Returned r')
          with step True Some False Suc.prems show ?thesis by (simp add: Let_def)
        next
          case (Checked m' found')
          with step have inv: "queueInv (blockchainBoxById env) m'" by simp
          from Checked True Some False Suc.prems(2)
          have "scanPages fuel env config cur minAge target
                  (offset - batchSize) (offset - batchSize) m' found' = Some r"
            by (simp add: Let_def)
          with Suc.IH inv show ?thesis by blast
        qed
      qed
    qed
  qed
qed

lemma queueInv_empty: "queueInv node []"
  by (simp add: queueInv_def bucketedByNodeHeight_def)

lemma queueInv_mergeScan:
  "bucketedByNodeHeight node scanned \<Longrightarrow> queueInv node q \<Longrightarrow>
   queueInv node (mergeScan scanned q)"
proof (induction scanned arbitrary: q)
  case Nil
  then show ?case by (simp add: mergeScan_def)
next
  case (Cons p scanned)
  obtain h bs where p: "p = (h, bs)" by (cases p)
  from Cons.prems(1) p have hb: "list_all (\<lambda>b. creationHeight b = h \<and>
           map_option nodeCreationHeight (node (boxId b)) = Some h) bs"
    and rest: "bucketedByNodeHeight node scanned"
    by (simp_all add: bucketedByNodeHeight_def)
  have "queueInv node (Map_push q h bs)"
    using Cons.prems(2) hb by (rule queueInv_push)
  from Cons.IH [OF rest this] show ?case
    by (simp add: mergeScan_def p)
qed

lemma queueInv_filter: "queueInv node q \<Longrightarrow> queueInv node (filter P q)"
  by (induction q) (auto simp: queueInv_def bucketedByNodeHeight_def)

lemma queueInv_cycle:
  assumes "answersAskedBox (blockchainBoxById env)"
    and "queueInv (blockchainBoxById env) (queuedBoxesByHeight st)"
    and "runScanAndProcess fuel env config st db = Some out"
  shows "queueInv (blockchainBoxById env)
           (queuedBoxesByHeight (case out of Inl (e, st', db') \<Rightarrow> st' | Inr (res, st', db') \<Rightarrow> st'))"
proof (cases "infoFullHeight env 0")
  case None
  with assms(3) have "out = Inl (FailedToGetCurrentHeight, st, db)"
    by (simp add: runScanAndProcess_def getCurrentHeight_def)
  with assms(2) show ?thesis by simp
next
  case (Some h)
  define st1 where "st1 =
     (if 50 \<le> h - lastQueueScanHeight st
      then (case scanForEligibleBoxes fuel env config h (minStorageRentAgeBlocks config)
                   (lastSearchOffset st) 50 of
              None \<Rightarrow> None
            | Some r \<Rightarrow>
                Some (st\<lparr>queuedBoxesByHeight :=
                           mergeScan (boxesByHeight r) (queuedBoxesByHeight st),
                         lastQueueScanHeight := h, lastSearchOffset := nextOffset r\<rparr>))
      else Some st)"
  have run: "runScanAndProcess fuel env config st db =
      (case st1 of
         None \<Rightarrow> None
       | Some s1 \<Rightarrow>
           (case promote h (minStorageRentAgeBlocks config) (queuedBoxesByHeight s1) of
              (nowEligible, heightsToRemove, q') \<Rightarrow>
                if nowEligible = []
                then Some (Inr (emptyResult, s1\<lparr>queuedBoxesByHeight := q'\<rparr>, db))
                else (case processEligibleBoxes env config db nowEligible of
                        None \<Rightarrow> None
                      | Some (Inl (e, db')) \<Rightarrow>
                          Some (Inl (e, s1\<lparr>queuedBoxesByHeight := q'\<rparr>, db'))
                      | Some (Inr (result, db')) \<Rightarrow>
                          Some (Inr (result, s1\<lparr>queuedBoxesByHeight := q'\<rparr>, db')))))"
    using Some by (simp add: runScanAndProcess_def getCurrentHeight_def Let_def st1_def)
  from assms(3) run obtain s1 where s1: "st1 = Some s1"
    by (cases st1) auto
  have inv1: "queueInv (blockchainBoxById env) (queuedBoxesByHeight s1)"
  proof (cases "50 \<le> h - lastQueueScanHeight st")
    case False
    with s1 assms(2) show ?thesis by (simp add: st1_def)
  next
    case True
    with s1 obtain r where r: "scanForEligibleBoxes fuel env config h (minStorageRentAgeBlocks config)
                   (lastSearchOffset st) 50 = Some r"
      and s1r: "s1 = st\<lparr>queuedBoxesByHeight :=
                           mergeScan (boxesByHeight r) (queuedBoxesByHeight st),
                         lastQueueScanHeight := h, lastSearchOffset := nextOffset r\<rparr>"
      by (auto simp: st1_def split: option.splits)
    from r have "queueInv (blockchainBoxById env) (boxesByHeight r)"
      unfolding scanForEligibleBoxes_def Let_def
      by (rule queueInv_scanPages [OF assms(1) queueInv_empty])
    then have "bucketedByNodeHeight (blockchainBoxById env) (boxesByHeight r)"
      by (simp add: queueInv_def)
    from queueInv_mergeScan [OF this assms(2)] show ?thesis
      by (simp add: s1r)
  qed
  let ?q' = "filter (\<lambda>(k, bs). \<not> k + minStorageRentAgeBlocks config < h) (queuedBoxesByHeight s1)"
  have inv2: "queueInv (blockchainBoxById env) ?q'"
    using inv1 by (rule queueInv_filter)
  have "queuedBoxesByHeight (case out of Inl (e, st', db') \<Rightarrow> st' | Inr (res, st', db') \<Rightarrow> st') = ?q'"
    using assms(3) run s1
    by (auto simp: promote_filter Let_def split: if_splits option.splits sum.splits prod.splits)
  with inv2 show ?thesis by simp
qed

lemma reachable_queueInv:
  assumes "answersAskedBox node"
  shows "reachable node config st \<Longrightarrow> queueInv node (queuedBoxesByHeight st)"
proof (induction rule: reachable.induct)
  case initial
  show ?case by (simp add: initialState_def queueInv_empty)
next
  case (returned st env fuel db result st' db')
  from queueInv_cycle [of env st fuel config db "Inr (result, st', db')"] assms returned
  show ?case by simp
next
  case (thrown st env fuel db e st' db')
  from queueInv_cycle [of env st fuel config db "Inl (e, st', db')"] assms thrown
  show ?case by simp
qed

lemma Map_push_appends:
  "Map_get (Map_push q h boxes) h
     = Some ((case Map_get q h of None \<Rightarrow> [] | Some present \<Rightarrow> present) @ boxes)"
proof -
  have set_get: "Map_get (Map_set m h v) h = Some v" for m v
    by (induction m) (auto simp: Map_get_def)
  have absent: "\<not> Map_has m h \<Longrightarrow> Map_get m h = None" for m
    by (simp add: Map_has_def Map_get_def map_of_eq_None_iff)
  have present: "Map_has m h \<Longrightarrow> \<exists>p. Map_get m h = Some p" for m
    by (cases "Map_get m h") (auto simp: Map_has_def Map_get_def map_of_eq_None_iff)
  show ?thesis
  proof (cases "Map_has q h")
    case True
    with present obtain p where "Map_get q h = Some p" by blast
    with True show ?thesis by (simp add: Map_push_def set_get)
  next
    case False
    with absent have "Map_get q h = None" by blast
    with False show ?thesis by (simp add: Map_push_def set_get)
  qed
qed

text \<open>
  C5 (amended). At every reachable state, when the node answers each box request with the
  data of the box asked for, two queued boxes with the same box id lie in the same bucket,
  the bucket of their creation height: a box id appears in at most one height bucket.
  Neither the scanner nor the merge deduplicates: the merge appends the scanned boxes to
  what the bucket of their height already holds.
\<close>

theorem one_bucket_per_box_id:
  assumes "answersAskedBox node" and "reachable node config st"
    and "(h1, bs1) \<in> set (queuedBoxesByHeight st)" and "b1 \<in> set bs1"
    and "(h2, bs2) \<in> set (queuedBoxesByHeight st)" and "b2 \<in> set bs2"
    and "boxId b1 = boxId b2"
  shows "h1 = h2 \<and> bs1 = bs2 \<and> creationHeight b1 = h1 \<and>
         Map_get (Map_push q h boxes) h
           = Some ((case Map_get q h of None \<Rightarrow> [] | Some present \<Rightarrow> present) @ boxes)"
proof -
  let ?P = "\<lambda>(h, bs). list_all (\<lambda>b. creationHeight b = h \<and>
                  map_option nodeCreationHeight (node (boxId b)) = Some h) bs"
  from reachable_queueInv [OF assms(1,2)]
  have d: "distinct (map fst (queuedBoxesByHeight st))"
    and a: "list_all ?P (queuedBoxesByHeight st)"
    by (simp_all add: queueInv_def bucketedByNodeHeight_def)
  from list_all_mem [OF a assms(3)] have "list_all (\<lambda>b. creationHeight b = h1 \<and>
                  map_option nodeCreationHeight (node (boxId b)) = Some h1) bs1" by simp
  from list_all_mem [OF this assms(4)]
  have p1: "creationHeight b1 = h1 \<and> map_option nodeCreationHeight (node (boxId b1)) = Some h1" .
  from list_all_mem [OF a assms(5)] have "list_all (\<lambda>b. creationHeight b = h2 \<and>
                  map_option nodeCreationHeight (node (boxId b)) = Some h2) bs2" by simp
  from list_all_mem [OF this assms(6)]
  have p2: "creationHeight b2 = h2 \<and> map_option nodeCreationHeight (node (boxId b2)) = Some h2" .
  from p1 p2 assms(7) have h: "h1 = h2" by simp
  have "map_of (queuedBoxesByHeight st) h1 = Some bs1"
    using d assms(3) by (rule map_of_is_SomeI)
  moreover have "map_of (queuedBoxesByHeight st) h2 = Some bs2"
    using d assms(5) by (rule map_of_is_SomeI)
  ultimately have "bs1 = bs2" using h by simp
  with h p1 Map_push_appends show ?thesis by simp
qed

lemma oneBox_cycle:
  "(case runScanAndProcess 2 oneBoxEnv defaultConfig initialState emptyDatabase of
      Some (Inr (result, st', db')) \<Rightarrow> st' = oneBoxState
    | _ \<Rightarrow> False)"
  by code_simp

theorem one_bucket_per_box_id_witness:
  "answersAskedBox (blockchainBoxById oneBoxEnv) \<and>
   reachable (blockchainBoxById oneBoxEnv) defaultConfig oneBoxState \<and>
   queuedBoxesByHeight oneBoxState = [(1000, [queuedA1])] \<and>
   creationHeight queuedA1 = 1000 \<and>
   Map_get (Map_push [(1000, [queuedA1])] 1000 [queuedA1]) 1000 = Some [queuedA1, queuedA1]"
proof -
  have a: "answersAskedBox (blockchainBoxById oneBoxEnv)"
    by (simp add: answersAskedBox_def oneBoxEnv_def quietEnv_def nodeDataOf_def exampleBox_def)
  from oneBox_cycle obtain result db' where
    "runScanAndProcess 2 oneBoxEnv defaultConfig initialState emptyDatabase
       = Some (Inr (result, oneBoxState, db'))"
    by (auto split: option.splits sum.splits)
  with reachable.initial have r: "reachable (blockchainBoxById oneBoxEnv) defaultConfig oneBoxState"
    by (rule reachable.returned [OF _ refl])
  have q: "(1000, [queuedA1]) \<in> set (queuedBoxesByHeight oneBoxState)"
    by (simp add: oneBoxState_def)
  have b: "queuedA1 \<in> set [queuedA1]" by simp
  from one_bucket_per_box_id [OF a r q b q b refl, of "[(1000, [queuedA1])]" 1000 "[queuedA1]"]
  have "creationHeight queuedA1 = 1000 \<and>
        Map_get (Map_push [(1000, [queuedA1])] 1000 [queuedA1]) 1000 = Some [queuedA1, queuedA1]"
    by (simp add: Map_get_def)
  with a r show ?thesis by (simp add: oneBoxState_def)
qed

lemma ledgerId_1000: "ledgerId 1000 = ''box1000''"
  by code_simp

lemma candidate_ledger_1000:
  "candidateBox ledgerEnv defaultConfig 2000 500 ''box1000'' = Some scannedLedgerBox"
  by (simp add: candidateBox_def ledgerEnv_def quietEnv_def ledgerId_1000 nodeDataOf_def
      exampleBox_def isSpent_def calculateBoxSize_def valueCheck_def BigInt_times_exact
      defaultConfig_def scannedLedgerBox_def)

lemma candidate_ledger_1001:
  "candidateBox ledgerEnv defaultConfig 2000 500 ''box1001'' = None"
  by (simp add: candidateBox_def ledgerEnv_def quietEnv_def ledgerId_1000 nodeDataOf_def
      exampleBox_def isSpent_def)

lemma ledger_page_1000: "boxRange ledgerEnv 1000 = Some [''box1000'', ''box1001'']"
proof -
  have "[1000 ..< 1002] = [1000, 1001 :: nat]"
    by (simp add: upt_rec)
  moreover have "ledgerId 1001 = ''box1001''" by code_simp
  ultimately show ?thesis
    by (simp add: ledgerEnv_def quietEnv_def ledgerId_1000)
qed

lemma ledger_page_1:
  "boxRange ledgerEnv 1 = Some (map ledgerId [1 ..< 1000] @ [''box1000''])"
proof -
  have "[1 ..< Suc 1000] = [1 ..< 1000] @ [1000 :: nat]"
    by (rule upt_Suc_append) simp
  moreover have "min 1002 (nat 1 + 1000) = Suc 1000" by simp
  ultimately have "map ledgerId [nat 1 ..< min 1002 (nat 1 + 1000)]
      = map ledgerId [1 ..< 1000] @ [''box1000'']"
    by (simp only: map_append list.map ledgerId_1000 nat_1 One_nat_def)
  then show ?thesis
    by (simp only: ledgerEnv_def quietEnv_def Env.simps Env.update_convs if_True
        order_refl zero_le_one) 
qed

text \<open>The claim as stated fails: a scan started from the cursor of a prior scan can emit a
  box id the prior scan has bucketed. On the ledger of 1002 boxes, a scan from offset 1000
  with target 1 buckets \<open>box1000\<close> and returns the cursor 1; the scan from the cursor 1
  buckets \<open>box1000\<close> again, and after both merges the bucket of height 1000 holds the box
  twice.\<close>

theorem rescan_reemits_counterexample:
  "scanForEligibleBoxes 1 ledgerEnv defaultConfig 2000 500 1000 1
     = Some \<lparr>boxesByHeight = [(1000, [scannedLedgerBox])], nextOffset = 1\<rparr> \<and>
   scanForEligibleBoxes 1 ledgerEnv defaultConfig 2000 500 1 1
     = Some \<lparr>boxesByHeight = [(1000, [scannedLedgerBox])], nextOffset = - 999\<rparr> \<and>
   mergeScan [(1000, [scannedLedgerBox])] (mergeScan [(1000, [scannedLedgerBox])] [])
     = [(1000, [scannedLedgerBox, scannedLedgerBox])]"
proof -
  have h: "creationHeight scannedLedgerBox = 1000"
    by (simp add: scannedLedgerBox_def exampleBox_def)
  have push: "Map_push [] 1000 [scannedLedgerBox] = [(1000, [scannedLedgerBox])]"
    by (simp add: Map_push_def Map_has_def Map_get_def)
  have first: "scanForEligibleBoxes 1 ledgerEnv defaultConfig 2000 500 1000 1
     = Some \<lparr>boxesByHeight = [(1000, [scannedLedgerBox])], nextOffset = 1\<rparr>"
    by (simp add: scanForEligibleBoxes_def ledger_page_1000 candidate_ledger_1000
        candidate_ledger_1001 h push batchSize_def)
  have second: "scanForEligibleBoxes 1 ledgerEnv defaultConfig 2000 500 1 1
     = Some \<lparr>boxesByHeight = [(1000, [scannedLedgerBox])], nextOffset = - 999\<rparr>"
    by (simp add: scanForEligibleBoxes_def ledger_page_1 candidate_ledger_1000 h push
        batchSize_def del: upt_rec_numeral)
  have merged: "mergeScan [(1000, [scannedLedgerBox])] (mergeScan [(1000, [scannedLedgerBox])] [])
     = [(1000, [scannedLedgerBox, scannedLedgerBox])]"
    by (simp add: mergeScan_def Map_push_def Map_has_def Map_get_def)
  from first second merged show ?thesis by simp
qed

end
